theory Spec2Isabelle
  imports Complex_Main "HOL-Library.AList"
begin

section \<open>Python values, dictionaries and exceptions\<close>

text \<open>
  The library passes dynamically typed values around: decoded JSON bodies
  (\<^verbatim>\<open>response.json()\<close>), the \<^verbatim>\<open>params\<close> dictionaries handed to httpx, the
  message of an exception. They are modelled by one datatype of Python values. A Python
  \<^verbatim>\<open>float\<close> is only ever carried from an argument into a dictionary, never computed
  with, so a real number stands for it. A \<^verbatim>\<open>dict\<close> keeps insertion order and is an
  association list; \<^verbatim>\<open>d[k] = v\<close> replaces the value of an existing key in place and
  appends a new key at the end.
\<close>

datatype py =
    PyNone
  | PyBool bool
  | PyInt int
  | PyFloat real
  | PyStr string
  | PyList "py list"
  | PyDict "(string \<times> py) list"

type_synonym 'v dict = "(string \<times> 'v) list"

definition setitem :: "'v dict \<Rightarrow> string \<Rightarrow> 'v \<Rightarrow> 'v dict" where
  "setitem d k v = AList.update k v d"

definition dict_get :: "'v dict \<Rightarrow> string \<Rightarrow> 'v \<Rightarrow> 'v" where
  "dict_get d k dflt = (case map_of d k of None \<Rightarrow> dflt | Some v \<Rightarrow> v)"

definition keys :: "'v dict \<Rightarrow> string set" where
  "keys d = fst ` set d"


text \<open>
  The exception classes of \<^verbatim>\<open>py_ns/exceptions.py\<close>: \<^verbatim>\<open>APIError(message, status_code)\<close>
  and its four subclasses, which inherit the constructor. The message is whatever
  \<^verbatim>\<open>_extract_error_message\<close> returned, a Python value. The remaining constructors are
  the exceptions of the interpreter and of the libraries that the modelled code can meet:
  a body that does not decode, a value of the wrong kind, a failed model validation, a
  failure of the HTTP library itself.
\<close>

datatype error =
    APIError py int
  | AuthenticationError py int
  | NotFoundError py int
  | RateLimitError py int
  | ServerError py int
  | JSONDecodeError
  | TypeError
  | AttributeError
  | ValidationError
  | HTTPError

fun error_message :: "error \<Rightarrow> py option" where
  "error_message (APIError m s) = Some m"
| "error_message (AuthenticationError m s) = Some m"
| "error_message (NotFoundError m s) = Some m"
| "error_message (RateLimitError m s) = Some m"
| "error_message (ServerError m s) = Some m"
| "error_message _ = None"

fun error_status_code :: "error \<Rightarrow> int option" where
  "error_status_code (APIError m s) = Some s"
| "error_status_code (AuthenticationError m s) = Some s"
| "error_status_code (NotFoundError m s) = Some s"
| "error_status_code (RateLimitError m s) = Some s"
| "error_status_code (ServerError m s) = Some s"
| "error_status_code _ = None"

section \<open>The transport: \<^verbatim>\<open>py_ns/_base/transport.py\<close>\<close>

text \<open>
  An \<^verbatim>\<open>httpx.Response\<close> as the transport reads it: the status code, the raw body
  (\<^verbatim>\<open>content\<close>, bytes), the body as text, and the outcome of \<^verbatim>\<open>response.json()\<close>,
  which either raises or returns the decoded value. \<^verbatim>\<open>is_success\<close> is httpx's
  property: the status code lies in 200..299.
\<close>

record response =
  status_code :: int
  content :: string
  body_text :: string
  json :: "error + py"

definition is_success :: "response \<Rightarrow> bool" where
  "is_success r = (200 \<le> status_code r \<and> status_code r \<le> 299)"

text \<open>
  \<^verbatim>\<open>_extract_error_message\<close>: the \<^verbatim>\<open>try\<close> block decodes the body and, for a dict,
  returns \<^verbatim>\<open>data.get("message", response.text)\<close>; \<^verbatim>\<open>except Exception: pass\<close> swallows
  a decoding failure; every other path falls through to \<^verbatim>\<open>response.text\<close>. The result
  type keeps a place for an exception so that "does not raise" is a statement.
\<close>

definition extract_error_message :: "response \<Rightarrow> error + py" where
  "extract_error_message r =
     (case json r of
        Inr (PyDict data) \<Rightarrow> Inr (dict_get data ''message'' (PyStr (body_text r)))
      | Inr _ \<Rightarrow> Inr (PyStr (body_text r))
      | Inl e \<Rightarrow> Inr (PyStr (body_text r)))"

text \<open>
  \<^verbatim>\<open>_handle_response\<close>: a successful response returns \<^verbatim>\<open>None\<close> for an empty body
  and the decoded body otherwise; any other response raises, the class chosen by the
  \<^verbatim>\<open>match\<close> statement, whose cases are tried in the order written.
\<close>

definition handle_response :: "response \<Rightarrow> error + py" where
  "handle_response r =
     (if is_success r then
        (if content r = [] then Inr PyNone else json r)
      else
        (case extract_error_message r of
           Inl e \<Rightarrow> Inl e
         | Inr message \<Rightarrow>
             (if status_code r = 401 \<or> status_code r = 403 then
                Inl (AuthenticationError message (status_code r))
              else if status_code r = 404 then
                Inl (NotFoundError message (status_code r))
              else if status_code r = 429 then
                Inl (RateLimitError message (status_code r))
              else if status_code r \<ge> 500 then
                Inl (ServerError message (status_code r))
              else
                Inl (APIError message (status_code r)))))"

text \<open>
  A request as the transport hands it to httpx, and the transport itself. The
  \<^verbatim>\<open>httpx.Client\<close> is held in \<^verbatim>\<open>_client\<close>: its default headers carry the
  subscription key, and \<^verbatim>\<open>close()\<close> releases its connection pool. What the network
  answers is a parameter \<open>send\<close>: it may fail (\<open>Inl\<close>) or produce a response.
\<close>

datatype http_method = GET | POST

record request =
  req_method :: http_method
  req_url :: string
  req_params :: "py dict option"
  req_headers :: "string dict option"
  req_json :: "py option"

record httpx_client =
  default_headers :: "string dict"
  timeout :: real
  is_closed :: bool

record HttpTransport =
  client :: httpx_client

definition HttpTransport_init :: "string \<Rightarrow> real \<Rightarrow> HttpTransport" where
  "HttpTransport_init api_key tmo =
     \<lparr>client = \<lparr>default_headers = [(''Ocp-Apim-Subscription-Key'', api_key)],
                 timeout = tmo, is_closed = False\<rparr>\<rparr>"

definition HttpTransport_get ::
  "(request \<Rightarrow> error + response) \<Rightarrow> string \<Rightarrow> py dict option \<Rightarrow> string dict option
     \<Rightarrow> error + py" where
  "HttpTransport_get send u ps hs =
     (case send \<lparr>req_method = GET, req_url = u, req_params = ps, req_headers = hs,
                  req_json = None\<rparr> of
        Inl e \<Rightarrow> Inl e
      | Inr r \<Rightarrow> handle_response r)"

definition HttpTransport_post ::
  "(request \<Rightarrow> error + response) \<Rightarrow> string \<Rightarrow> py option \<Rightarrow> string dict option
     \<Rightarrow> error + py" where
  "HttpTransport_post send u body hs =
     (case send \<lparr>req_method = POST, req_url = u, req_params = None, req_headers = hs,
                  req_json = body\<rparr> of
        Inl e \<Rightarrow> Inl e
      | Inr r \<Rightarrow> handle_response r)"

text \<open>An endpoint method calls \<^verbatim>\<open>self._http.get\<close> or \<^verbatim>\<open>self._http.post\<close> once;
  \<open>perform\<close> is that call for a request built by the method.\<close>

definition perform :: "(request \<Rightarrow> error + response) \<Rightarrow> request \<Rightarrow> error + py" where
  "perform send rq =
     (case req_method rq of
        GET \<Rightarrow> HttpTransport_get send (req_url rq) (req_params rq) (req_headers rq)
      | POST \<Rightarrow> HttpTransport_post send (req_url rq) (req_json rq) (req_headers rq))"

definition httpx_close :: "httpx_client \<Rightarrow> httpx_client" where
  "httpx_close c = c\<lparr>is_closed := True\<rparr>"

definition HttpTransport_close :: "HttpTransport \<Rightarrow> HttpTransport" where
  "HttpTransport_close t = t\<lparr>client := httpx_close (client t)\<rparr>"

definition HttpTransport_enter :: "HttpTransport \<Rightarrow> HttpTransport" where
  "HttpTransport_enter t = t"

text \<open>\<^verbatim>\<open>__exit__(self, *args)\<close> takes any arguments and returns \<^verbatim>\<open>None\<close>.\<close>

definition HttpTransport_exit :: "'x list \<Rightarrow> HttpTransport \<Rightarrow> HttpTransport" where
  "HttpTransport_exit args t = HttpTransport_close t"

section \<open>The client facade: \<^verbatim>\<open>py_ns/client.py\<close>\<close>

text \<open>
  \<^verbatim>\<open>NSClient\<close> builds one transport and hands the same object to the three API
  namespaces, which keep nothing else; the record holds that transport.
\<close>

record NSClient =
  transport :: HttpTransport

definition NSClient_init :: "string \<Rightarrow> real \<Rightarrow> NSClient" where
  "NSClient_init api_key tmo = \<lparr>transport = HttpTransport_init api_key tmo\<rparr>"

definition NSClient_close :: "NSClient \<Rightarrow> NSClient" where
  "NSClient_close c = c\<lparr>transport := HttpTransport_close (transport c)\<rparr>"

definition NSClient_enter :: "NSClient \<Rightarrow> NSClient" where
  "NSClient_enter c = c"

definition NSClient_exit :: "'x list \<Rightarrow> NSClient \<Rightarrow> NSClient" where
  "NSClient_exit args c = NSClient_close c"

text \<open>
  The \<^verbatim>\<open>with\<close> statement: \<^verbatim>\<open>__enter__\<close>, the body, then \<^verbatim>\<open>__exit__\<close> with the
  exception triple of the body (three \<^verbatim>\<open>None\<close> when it ended normally). Both
  \<^verbatim>\<open>__exit__\<close> methods return \<^verbatim>\<open>None\<close>, so an exception of the body is not
  suppressed and is the outcome of the whole statement.
\<close>

definition exc_info :: "error + 'a \<Rightarrow> error option list" where
  "exc_info outcome =
     (case outcome of Inl e \<Rightarrow> [Some e, Some e, Some e] | Inr v \<Rightarrow> [None, None, None])"

definition with_HttpTransport ::
  "(HttpTransport \<Rightarrow> (error + 'a) \<times> HttpTransport) \<Rightarrow> HttpTransport
     \<Rightarrow> (error + 'a) \<times> HttpTransport" where
  "with_HttpTransport body t =
     (let t1 = HttpTransport_enter t;
          (outcome, t2) = body t1;
          t3 = HttpTransport_exit (exc_info outcome) t2
      in (outcome, t3))"

definition with_NSClient ::
  "(NSClient \<Rightarrow> (error + 'a) \<times> NSClient) \<Rightarrow> NSClient \<Rightarrow> (error + 'a) \<times> NSClient" where
  "with_NSClient body c =
     (let c1 = NSClient_enter c;
          (outcome, c2) = body c1;
          c3 = NSClient_exit (exc_info outcome) c2
      in (outcome, c3))"

section \<open>Arguments of the endpoint methods\<close>

text \<open>
  An argument with a default is an option: \<open>None\<close> is the call that leaves the
  argument out. For a parameter declared \<^verbatim>\<open>x: T | None = None\<close> that is also the call
  passing \<^verbatim>\<open>None\<close>; for a parameter declared with another default
  (\<^verbatim>\<open>max_journeys: int = 40\<close>) the method then works with the default, which
  \<open>default_arg\<close> supplies. \<open>py_opt\<close> is the Python value of an optional argument.
\<close>

definition default_arg :: "'a \<Rightarrow> 'a option \<Rightarrow> 'a" where
  "default_arg d x = (case x of None \<Rightarrow> d | Some v \<Rightarrow> v)"

definition py_opt :: "('a \<Rightarrow> py) \<Rightarrow> 'a option \<Rightarrow> py" where
  "py_opt f x = (case x of None \<Rightarrow> PyNone | Some v \<Rightarrow> f v)"

text \<open>
  A \<^verbatim>\<open>datetime\<close> is used only through \<^verbatim>\<open>isoformat()\<close> and its truth value (always
  true); a member of an \<^verbatim>\<open>Enum\<close> with string values only through \<^verbatim>\<open>.value\<close> and its
  truth value (true for the non-empty wire names of this library). The model classes
  themselves (\<^verbatim>\<open>py_ns.models\<close>) are not part of the sources at hand.
\<close>

datatype datetime = Datetime (isoformat: string)

datatype str_enum = Member (member_name: string) (member_value: string)

definition PyStrs :: "string list \<Rightarrow> py" where
  "PyStrs xs = PyList (map PyStr xs)"

text \<open>\<^verbatim>\<open>",".join(xs)\<close>\<close>

fun join_comma :: "string list \<Rightarrow> string" where
  "join_comma [] = []"
| "join_comma [x] = x"
| "join_comma (x # y # ys) = x @ '','' @ join_comma (y # ys)"

section \<open>The disruptions namespace: \<^verbatim>\<open>py_ns/api/disruptions.py\<close>\<close>

definition DISRUPTIONS_BASE_URL :: string where
  "DISRUPTIONS_BASE_URL = ''https://gateway.apiportal.ns.nl/disruptions''"

text \<open>
  \<^verbatim>\<open>_parse_item\<close>. The two pydantic validators \<^verbatim>\<open>Calamity.model_validate\<close> and
  \<^verbatim>\<open>Disruption.model_validate\<close> belong to the model classes and are parameters here.
  \<^verbatim>\<open>item.get("type")\<close> is a method of \<^verbatim>\<open>dict\<close>: on any other value the attribute
  lookup raises before anything is compared or validated.
\<close>

datatype ('d, 'c) disruption_item = IsDisruption 'd | IsCalamity 'c

definition parse_item ::
  "(py \<Rightarrow> error + 'c) \<Rightarrow> (py \<Rightarrow> error + 'd) \<Rightarrow> py \<Rightarrow> error + ('d, 'c) disruption_item" where
  "parse_item calamity_validate disruption_validate item =
     (case item of
        PyDict d \<Rightarrow>
          (if dict_get d ''type'' PyNone = PyStr ''CALAMITY'' then
             (case calamity_validate item of Inl e \<Rightarrow> Inl e | Inr c \<Rightarrow> Inr (IsCalamity c))
           else
             (case disruption_validate item of Inl e \<Rightarrow> Inl e | Inr x \<Rightarrow> Inr (IsDisruption x)))
      | _ \<Rightarrow> Inl AttributeError)"

text \<open>
  The list comprehension \<^verbatim>\<open>[_parse_item(item) for item in data]\<close>: the items are
  parsed from left to right and the first exception ends the comprehension. Iterating
  over \<^verbatim>\<open>data\<close> yields the elements of a list, the keys of a dict, the characters of a
  string, and raises for any other decoded value.
\<close>

fun parse_items ::
  "(py \<Rightarrow> error + 'c) \<Rightarrow> (py \<Rightarrow> error + 'd) \<Rightarrow> py list
     \<Rightarrow> error + ('d, 'c) disruption_item list" where
  "parse_items cv dv [] = Inr []"
| "parse_items cv dv (item # rest) =
     (case parse_item cv dv item of
        Inl e \<Rightarrow> Inl e
      | Inr x \<Rightarrow> (case parse_items cv dv rest of Inl e \<Rightarrow> Inl e | Inr xs \<Rightarrow> Inr (x # xs)))"

definition iterate :: "py \<Rightarrow> error + py list" where
  "iterate data =
     (case data of
        PyList xs \<Rightarrow> Inr xs
      | PyDict kvs \<Rightarrow> Inr (map (\<lambda>kv. PyStr (fst kv)) kvs)
      | PyStr s \<Rightarrow> Inr (map (\<lambda>ch. PyStr [ch]) s)
      | _ \<Rightarrow> Inl TypeError)"

definition parse_all ::
  "(py \<Rightarrow> error + 'c) \<Rightarrow> (py \<Rightarrow> error + 'd) \<Rightarrow> py
     \<Rightarrow> error + ('d, 'c) disruption_item list" where
  "parse_all cv dv data =
     (case iterate data of Inl e \<Rightarrow> Inl e | Inr items \<Rightarrow> parse_items cv dv items)"

text \<open>\<^verbatim>\<open>DisruptionsAPI.list\<close>\<close>

definition DisruptionsAPI_list_params :: "bool option \<Rightarrow> str_enum option \<Rightarrow> py dict" where
  "DisruptionsAPI_list_params is_active disruption_type =
     (let params = [];
          params = (case is_active of None \<Rightarrow> params
                    | Some v \<Rightarrow> setitem params ''isActive'' (PyBool v));
          params = (case disruption_type of None \<Rightarrow> params
                    | Some t \<Rightarrow> setitem params ''type'' (PyStr (member_value t)))
      in params)"

text \<open>The statements \<^verbatim>\<open>headers = None\<close>,
  \<^verbatim>\<open>if language is not None: headers = {"Accept-Language": language}\<close>, which four
  methods repeat word for word.\<close>

definition accept_language_headers :: "string option \<Rightarrow> string dict option" where
  "accept_language_headers language =
     (case language of None \<Rightarrow> None | Some l \<Rightarrow> Some [(''Accept-Language'', l)])"

definition DisruptionsAPI_list_request ::
  "bool option \<Rightarrow> str_enum option \<Rightarrow> string option \<Rightarrow> request" where
  "DisruptionsAPI_list_request is_active disruption_type language =
     \<lparr>req_method = GET, req_url = DISRUPTIONS_BASE_URL @ ''/v3'',
      req_params = Some (DisruptionsAPI_list_params is_active disruption_type),
      req_headers = accept_language_headers language, req_json = None\<rparr>"

definition DisruptionsAPI_list ::
  "(request \<Rightarrow> error + response) \<Rightarrow> (py \<Rightarrow> error + 'c) \<Rightarrow> (py \<Rightarrow> error + 'd)
     \<Rightarrow> bool option \<Rightarrow> str_enum option \<Rightarrow> string option
     \<Rightarrow> error + ('d, 'c) disruption_item list" where
  "DisruptionsAPI_list send cv dv is_active disruption_type language =
     (case perform send (DisruptionsAPI_list_request is_active disruption_type language) of
        Inl e \<Rightarrow> Inl e
      | Inr data \<Rightarrow> parse_all cv dv data)"

text \<open>\<^verbatim>\<open>DisruptionsAPI.get\<close>\<close>

definition DisruptionsAPI_get_request :: "str_enum \<Rightarrow> string \<Rightarrow> string option \<Rightarrow> request" where
  "DisruptionsAPI_get_request disruption_type disruption_id language =
     \<lparr>req_method = GET,
      req_url = DISRUPTIONS_BASE_URL @ ''/v3/'' @ member_value disruption_type @ ''/''
                  @ disruption_id,
      req_params = None,
      req_headers = accept_language_headers language, req_json = None\<rparr>"

definition DisruptionsAPI_get ::
  "(request \<Rightarrow> error + response) \<Rightarrow> (py \<Rightarrow> error + 'c) \<Rightarrow> (py \<Rightarrow> error + 'd)
     \<Rightarrow> str_enum \<Rightarrow> string \<Rightarrow> string option \<Rightarrow> error + ('d, 'c) disruption_item" where
  "DisruptionsAPI_get send cv dv disruption_type disruption_id language =
     (case perform send (DisruptionsAPI_get_request disruption_type disruption_id language) of
        Inl e \<Rightarrow> Inl e
      | Inr data \<Rightarrow> parse_item cv dv data)"

text \<open>\<^verbatim>\<open>DisruptionsAPI.list_for_station\<close>\<close>

definition DisruptionsAPI_list_for_station_request :: "string \<Rightarrow> string option \<Rightarrow> request" where
  "DisruptionsAPI_list_for_station_request station_code language =
     \<lparr>req_method = GET, req_url = DISRUPTIONS_BASE_URL @ ''/v3/station/'' @ station_code,
      req_params = None,
      req_headers = accept_language_headers language, req_json = None\<rparr>"

definition DisruptionsAPI_list_for_station ::
  "(request \<Rightarrow> error + response) \<Rightarrow> (py \<Rightarrow> error + 'c) \<Rightarrow> (py \<Rightarrow> error + 'd)
     \<Rightarrow> string \<Rightarrow> string option \<Rightarrow> error + ('d, 'c) disruption_item list" where
  "DisruptionsAPI_list_for_station send cv dv station_code language =
     (case perform send (DisruptionsAPI_list_for_station_request station_code language) of
        Inl e \<Rightarrow> Inl e
      | Inr data \<Rightarrow> parse_all cv dv data)"

text \<open>\<^verbatim>\<open>DisruptionsAPI.list_personal\<close> and \<^verbatim>\<open>DisruptionsAPI.sync_saved_trips\<close>; the
  body of the latter is \<^verbatim>\<open>saved_trip.model_dump(by_alias=True)\<close>, taken as given.\<close>

definition DisruptionsAPI_list_personal_request :: "string \<Rightarrow> request" where
  "DisruptionsAPI_list_personal_request push_id =
     \<lparr>req_method = GET, req_url = DISRUPTIONS_BASE_URL @ ''/v1/personal-disruptions'',
      req_params = None,
      req_headers = Some [(''x-ns-push-id'', push_id)], req_json = None\<rparr>"

definition DisruptionsAPI_sync_saved_trips_request :: "string \<Rightarrow> py \<Rightarrow> request" where
  "DisruptionsAPI_sync_saved_trips_request api_key saved_trip_dump =
     \<lparr>req_method = POST,
      req_url = DISRUPTIONS_BASE_URL @ ''/v1/personal-disruptions/sync/saved-trips'',
      req_params = None,
      req_headers = Some [(''x-api-key'', api_key)], req_json = Some saved_trip_dump\<rparr>"

section \<open>The stations namespace: \<^verbatim>\<open>py_ns/api/stations.py\<close>\<close>

definition STATIONS_BASE_URL :: string where
  "STATIONS_BASE_URL = ''https://gateway.apiportal.ns.nl/nsapp-stations''"

text \<open>\<^verbatim>\<open>StationsAPI.list_v2\<close> and \<^verbatim>\<open>StationsAPI.list_v3\<close> build the same dictionary.\<close>

definition StationsAPI_list_v2_params ::
  "string option \<Rightarrow> string option \<Rightarrow> bool option \<Rightarrow> int option \<Rightarrow> py dict" where
  "StationsAPI_list_v2_params query country_codes include_non_plannable limit =
     (let params = [];
          params = (case query of None \<Rightarrow> params
                    | Some v \<Rightarrow> setitem params ''q'' (PyStr v));
          params = (case country_codes of None \<Rightarrow> params
                    | Some v \<Rightarrow> setitem params ''countryCodes'' (PyStr v));
          params = (case include_non_plannable of None \<Rightarrow> params
                    | Some v \<Rightarrow> setitem params ''includeNonPlannableStations'' (PyBool v));
          params = (case limit of None \<Rightarrow> params
                    | Some v \<Rightarrow> setitem params ''limit'' (PyInt v))
      in params)"

definition StationsAPI_list_v2_request ::
  "string option \<Rightarrow> string option \<Rightarrow> bool option \<Rightarrow> int option \<Rightarrow> request" where
  "StationsAPI_list_v2_request query country_codes include_non_plannable limit =
     \<lparr>req_method = GET, req_url = STATIONS_BASE_URL @ ''/v2'',
      req_params =
        Some (StationsAPI_list_v2_params query country_codes include_non_plannable limit),
      req_headers = None, req_json = None\<rparr>"

definition StationsAPI_list_v3_params ::
  "string option \<Rightarrow> string option \<Rightarrow> bool option \<Rightarrow> int option \<Rightarrow> py dict" where
  "StationsAPI_list_v3_params query country_codes include_non_plannable limit =
     (let params = [];
          params = (case query of None \<Rightarrow> params
                    | Some v \<Rightarrow> setitem params ''q'' (PyStr v));
          params = (case country_codes of None \<Rightarrow> params
                    | Some v \<Rightarrow> setitem params ''countryCodes'' (PyStr v));
          params = (case include_non_plannable of None \<Rightarrow> params
                    | Some v \<Rightarrow> setitem params ''includeNonPlannableStations'' (PyBool v));
          params = (case limit of None \<Rightarrow> params
                    | Some v \<Rightarrow> setitem params ''limit'' (PyInt v))
      in params)"

definition StationsAPI_list_v3_request ::
  "string option \<Rightarrow> string option \<Rightarrow> bool option \<Rightarrow> int option \<Rightarrow> request" where
  "StationsAPI_list_v3_request query country_codes include_non_plannable limit =
     \<lparr>req_method = GET, req_url = STATIONS_BASE_URL @ ''/v3'',
      req_params =
        Some (StationsAPI_list_v3_params query country_codes include_non_plannable limit),
      req_headers = None, req_json = None\<rparr>"

text \<open>\<^verbatim>\<open>StationsAPI.list_nearest_v2\<close> and \<^verbatim>\<open>StationsAPI.list_nearest_v3\<close>\<close>

definition StationsAPI_list_nearest_v2_params ::
  "real \<Rightarrow> real \<Rightarrow> int option \<Rightarrow> bool option \<Rightarrow> py dict" where
  "StationsAPI_list_nearest_v2_params lat lng limit include_non_plannable =
     (let params = [(''lat'', PyFloat lat), (''lng'', PyFloat lng)];
          params = (case limit of None \<Rightarrow> params
                    | Some v \<Rightarrow> setitem params ''limit'' (PyInt v));
          params = (case include_non_plannable of None \<Rightarrow> params
                    | Some v \<Rightarrow> setitem params ''includeNonPlannableStations'' (PyBool v))
      in params)"

definition StationsAPI_list_nearest_v2_request ::
  "real \<Rightarrow> real \<Rightarrow> int option \<Rightarrow> bool option \<Rightarrow> request" where
  "StationsAPI_list_nearest_v2_request lat lng limit include_non_plannable =
     \<lparr>req_method = GET, req_url = STATIONS_BASE_URL @ ''/v2/nearest'',
      req_params = Some (StationsAPI_list_nearest_v2_params lat lng limit include_non_plannable),
      req_headers = None, req_json = None\<rparr>"

definition StationsAPI_list_nearest_v3_params ::
  "real \<Rightarrow> real \<Rightarrow> int option \<Rightarrow> bool option \<Rightarrow> py dict" where
  "StationsAPI_list_nearest_v3_params lat lng limit include_non_plannable =
     (let params = [(''lat'', PyFloat lat), (''lng'', PyFloat lng)];
          params = (case limit of None \<Rightarrow> params
                    | Some v \<Rightarrow> setitem params ''limit'' (PyInt v));
          params = (case include_non_plannable of None \<Rightarrow> params
                    | Some v \<Rightarrow> setitem params ''includeNonPlannableStations'' (PyBool v))
      in params)"

definition StationsAPI_list_nearest_v3_request ::
  "real \<Rightarrow> real \<Rightarrow> int option \<Rightarrow> bool option \<Rightarrow> request" where
  "StationsAPI_list_nearest_v3_request lat lng limit include_non_plannable =
     \<lparr>req_method = GET, req_url = STATIONS_BASE_URL @ ''/v3/nearest'',
      req_params = Some (StationsAPI_list_nearest_v3_params lat lng limit include_non_plannable),
      req_headers = None, req_json = None\<rparr>"

text \<open>\<^verbatim>\<open>StationsAPI.get\<close>\<close>

definition StationsAPI_get_params :: "string \<Rightarrow> string option \<Rightarrow> py dict" where
  "StationsAPI_get_params uic_code uic_cd_code =
     (let params = [(''uicCode'', PyStr uic_code)];
          params = (case uic_cd_code of None \<Rightarrow> params
                    | Some v \<Rightarrow> setitem params ''uicCdCode'' (PyStr v))
      in params)"

definition StationsAPI_get_request :: "string \<Rightarrow> string option \<Rightarrow> request" where
  "StationsAPI_get_request uic_code uic_cd_code =
     \<lparr>req_method = GET, req_url = STATIONS_BASE_URL @ ''/v1/station'',
      req_params = Some (StationsAPI_get_params uic_code uic_cd_code),
      req_headers = None, req_json = None\<rparr>"

section \<open>The travel namespace: \<^verbatim>\<open>py_ns/api/travel.py\<close>\<close>

definition TRAVEL_BASE_URL :: string where
  "TRAVEL_BASE_URL = ''https://gateway.apiportal.ns.nl/reisinformatie-api''"

text \<open>
  \<^verbatim>\<open>_set(params, key, value)\<close>, the helper at the end of the module: the key is
  stored unless the value is \<^verbatim>\<open>None\<close>.
\<close>

definition set_param :: "py dict \<Rightarrow> string \<Rightarrow> py \<Rightarrow> py dict" where
  "set_param params key v = (if v \<noteq> PyNone then setitem params key v else params)"

text \<open>A run of \<^verbatim>\<open>_set\<close> calls on the same dictionary, in the order written.\<close>

definition set_params :: "py dict \<Rightarrow> (string \<times> py) list \<Rightarrow> py dict" where
  "set_params params calls = foldl (\<lambda>p kv. set_param p (fst kv) (snd kv)) params calls"





text \<open>\<^verbatim>\<open>TravelAPI.get_departures\<close> and \<^verbatim>\<open>TravelAPI.get_arrivals\<close>;
  \<^verbatim>\<open>if station:\<close> tests the string for emptiness.\<close>

definition get_departures_params ::
  "string \<Rightarrow> string option \<Rightarrow> datetime option \<Rightarrow> int option \<Rightarrow> string option \<Rightarrow> py dict" where
  "get_departures_params station uic_code date_time max_journeys language =
     (let max_journeys = default_arg 40 max_journeys;
          params = [(''maxJourneys'', PyInt max_journeys)];
          params = (if station \<noteq> [] then setitem params ''station'' (PyStr station)
                    else params);
          params = (case uic_code of None \<Rightarrow> params
                    | Some v \<Rightarrow> setitem params ''uicCode'' (PyStr v));
          params = (case date_time of None \<Rightarrow> params
                    | Some v \<Rightarrow> setitem params ''dateTime'' (PyStr (isoformat v)));
          params = (case language of None \<Rightarrow> params
                    | Some v \<Rightarrow> setitem params ''lang'' (PyStr v))
      in params)"

definition get_departures_request ::
  "string \<Rightarrow> string option \<Rightarrow> datetime option \<Rightarrow> int option \<Rightarrow> string option \<Rightarrow> request" where
  "get_departures_request station uic_code date_time max_journeys language =
     \<lparr>req_method = GET, req_url = TRAVEL_BASE_URL @ ''/api/v2/departures'',
      req_params = Some (get_departures_params station uic_code date_time max_journeys language),
      req_headers = None, req_json = None\<rparr>"

definition get_arrivals_params ::
  "string \<Rightarrow> string option \<Rightarrow> datetime option \<Rightarrow> int option \<Rightarrow> string option \<Rightarrow> py dict" where
  "get_arrivals_params station uic_code date_time max_journeys language =
     (let max_journeys = default_arg 40 max_journeys;
          params = [(''maxJourneys'', PyInt max_journeys)];
          params = (if station \<noteq> [] then setitem params ''station'' (PyStr station)
                    else params);
          params = (case uic_code of None \<Rightarrow> params
                    | Some v \<Rightarrow> setitem params ''uicCode'' (PyStr v));
          params = (case date_time of None \<Rightarrow> params
                    | Some v \<Rightarrow> setitem params ''dateTime'' (PyStr (isoformat v)));
          params = (case language of None \<Rightarrow> params
                    | Some v \<Rightarrow> setitem params ''lang'' (PyStr v))
      in params)"

definition get_arrivals_request ::
  "string \<Rightarrow> string option \<Rightarrow> datetime option \<Rightarrow> int option \<Rightarrow> string option \<Rightarrow> request" where
  "get_arrivals_request station uic_code date_time max_journeys language =
     \<lparr>req_method = GET, req_url = TRAVEL_BASE_URL @ ''/api/v2/arrivals'',
      req_params = Some (get_arrivals_params station uic_code date_time max_journeys language),
      req_headers = None, req_json = None\<rparr>"

text \<open>\<^verbatim>\<open>TravelAPI.get_journey\<close>\<close>

definition get_journey_params ::
  "int option \<Rightarrow> string option \<Rightarrow> datetime option \<Rightarrow> string option \<Rightarrow> string option
     \<Rightarrow> string option \<Rightarrow> bool option \<Rightarrow> py dict" where
  "get_journey_params train journey_id date_time departure_uic_code transfer_uic_code
       arrival_uic_code omit_crowd_forecast =
     (let omit_crowd_forecast = default_arg False omit_crowd_forecast;
          params = [(''omitCrowdForecast'', PyBool omit_crowd_forecast)];
          params = (case train of None \<Rightarrow> params
                    | Some v \<Rightarrow> setitem params ''train'' (PyInt v));
          params = (case journey_id of None \<Rightarrow> params
                    | Some v \<Rightarrow> setitem params ''id'' (PyStr v));
          params = (case date_time of None \<Rightarrow> params
                    | Some v \<Rightarrow> setitem params ''dateTime'' (PyStr (isoformat v)));
          params = (case departure_uic_code of None \<Rightarrow> params
                    | Some v \<Rightarrow> setitem params ''departureUicCode'' (PyStr v));
          params = (case transfer_uic_code of None \<Rightarrow> params
                    | Some v \<Rightarrow> setitem params ''transferUicCode'' (PyStr v));
          params = (case arrival_uic_code of None \<Rightarrow> params
                    | Some v \<Rightarrow> setitem params ''arrivalUicCode'' (PyStr v))
      in params)"

definition get_journey_request ::
  "int option \<Rightarrow> string option \<Rightarrow> datetime option \<Rightarrow> string option \<Rightarrow> string option
     \<Rightarrow> string option \<Rightarrow> bool option \<Rightarrow> request" where
  "get_journey_request train journey_id date_time departure_uic_code transfer_uic_code
       arrival_uic_code omit_crowd_forecast =
     \<lparr>req_method = GET, req_url = TRAVEL_BASE_URL @ ''/api/v2/journey'',
      req_params = Some (get_journey_params train journey_id date_time departure_uic_code
                           transfer_uic_code arrival_uic_code omit_crowd_forecast),
      req_headers = None, req_json = None\<rparr>"


text \<open>\<^verbatim>\<open>x or None\<close> for a boolean \<^verbatim>\<open>x\<close>\<close>

definition or_None :: "bool \<Rightarrow> py" where
  "or_None b = (if b then PyBool b else PyNone)"

text \<open>\<^verbatim>\<open>headers or {}\<close>\<close>

definition or_empty :: "string dict option \<Rightarrow> string dict" where
  "or_empty headers = (case headers of None \<Rightarrow> [] | Some h \<Rightarrow> (if h \<noteq> [] then h else []))"

text \<open>\<^verbatim>\<open>TravelAPI.get_trip\<close>\<close>

definition get_trip_params ::
  "string \<Rightarrow> datetime option \<Rightarrow> string option \<Rightarrow> string option \<Rightarrow> string option
     \<Rightarrow> int option \<Rightarrow> int option \<Rightarrow> bool option \<Rightarrow> py dict" where
  "get_trip_params ctx_recon date travel_request_type product discount travel_class nsr
       source_ctx_recon =
     (let travel_request_type = default_arg ''DEFAULT'' travel_request_type;
          params = [(''ctxRecon'', PyStr ctx_recon),
                    (''travelRequestType'', PyStr travel_request_type)]
      in set_params params
           [(''date'', py_opt (\<lambda>d. PyStr (isoformat d)) date),
            (''product'', py_opt PyStr product),
            (''discount'', py_opt PyStr discount),
            (''travelClass'', py_opt PyInt travel_class),
            (''nsr'', py_opt PyInt nsr),
            (''sourceCtxRecon'', py_opt PyBool source_ctx_recon)])"
  for ctx_recon date travel_request_type product discount travel_class nsr source_ctx_recon

definition get_trip_headers :: "string option \<Rightarrow> string option \<Rightarrow> string dict option" where
  "get_trip_headers authorization language =
     (let headers = None;
          headers = (case authorization of None \<Rightarrow> headers
                     | Some v \<Rightarrow> Some [(''Authorization'', v)]);
          headers = (case language of None \<Rightarrow> headers
                     | Some v \<Rightarrow> Some (setitem (or_empty headers) ''lang'' v))
      in headers)"

definition get_trip_request ::
  "string \<Rightarrow> datetime option \<Rightarrow> string option \<Rightarrow> string option \<Rightarrow> string option
     \<Rightarrow> int option \<Rightarrow> string option \<Rightarrow> string option \<Rightarrow> int option \<Rightarrow> bool option
     \<Rightarrow> request" where
  "get_trip_request ctx_recon date travel_request_type product discount travel_class
       authorization language nsr source_ctx_recon =
     \<lparr>req_method = GET, req_url = TRAVEL_BASE_URL @ ''/api/v3/trips/trip'',
      req_params = Some (get_trip_params ctx_recon date travel_request_type product discount
                           travel_class nsr source_ctx_recon),
      req_headers = get_trip_headers authorization language, req_json = None\<rparr>"
  for ctx_recon date travel_request_type product discount travel_class authorization language
    nsr source_ctx_recon


text \<open>\<^verbatim>\<open>TravelAPI.get_booked_trip\<close>\<close>

definition get_booked_trip_params ::
  "string \<Rightarrow> int \<Rightarrow> int \<Rightarrow> string option \<Rightarrow> string option \<Rightarrow> py dict" where
  "get_booked_trip_params ctx_recon booking_number original_trip_request_id
       accessibility_equipment1 accessibility_equipment2 =
     (let params = [(''ctxRecon'', PyStr ctx_recon),
                    (''bookingNumber'', PyInt booking_number),
                    (''originalTripRequestId'', PyInt original_trip_request_id)]
      in set_params params
           [(''accessibilityEquipment1'', py_opt PyStr accessibility_equipment1),
            (''accessibilityEquipment2'', py_opt PyStr accessibility_equipment2)])"

definition get_booked_trip_headers :: "string \<Rightarrow> string option \<Rightarrow> string dict option" where
  "get_booked_trip_headers authorization language =
     (let headers = [(''Authorization'', authorization)];
          headers = (case language of None \<Rightarrow> headers
                     | Some v \<Rightarrow> setitem headers ''lang'' v)
      in Some headers)"

definition get_booked_trip_request ::
  "string \<Rightarrow> int \<Rightarrow> int \<Rightarrow> string \<Rightarrow> string option \<Rightarrow> string option \<Rightarrow> string option
     \<Rightarrow> request" where
  "get_booked_trip_request ctx_recon booking_number original_trip_request_id authorization
       accessibility_equipment1 accessibility_equipment2 language =
     \<lparr>req_method = GET, req_url = TRAVEL_BASE_URL @ ''/api/v3/trips/booked-trip'',
      req_params = Some (get_booked_trip_params ctx_recon booking_number
                           original_trip_request_id accessibility_equipment1
                           accessibility_equipment2),
      req_headers = get_booked_trip_headers authorization language, req_json = None\<rparr>"

text \<open>\<^verbatim>\<open>TravelAPI.get_price\<close> (v3) and \<^verbatim>\<open>TravelAPI.get_price_v2\<close>\<close>

definition get_price_params ::
  "string option \<Rightarrow> string option \<Rightarrow> str_enum option \<Rightarrow> string option \<Rightarrow> bool option
     \<Rightarrow> int option \<Rightarrow> int option \<Rightarrow> string option \<Rightarrow> datetime option \<Rightarrow> datetime option
     \<Rightarrow> py dict" where
  "get_price_params from_station to_station travel_class travel_type is_joint_journey adults
       children route_id planned_departure_time planned_arrival_time =
     (let is_joint_journey = default_arg False is_joint_journey;
          adults = default_arg 1 adults;
          children = default_arg 0 children;
          params = [(''isJointJourney'', PyBool is_joint_journey),
                    (''adults'', PyInt adults),
                    (''children'', PyInt children)]
      in set_params params
           [(''fromStation'', py_opt PyStr from_station),
            (''toStation'', py_opt PyStr to_station),
            (''travelClass'', py_opt (\<lambda>t. PyStr (member_value t)) travel_class),
            (''travelType'', py_opt PyStr travel_type),
            (''routeId'', py_opt PyStr route_id),
            (''plannedDepartureTime'', py_opt (\<lambda>d. PyStr (isoformat d)) planned_departure_time),
            (''plannedArrivalTime'', py_opt (\<lambda>d. PyStr (isoformat d)) planned_arrival_time)])"

definition get_price_request ::
  "string option \<Rightarrow> string option \<Rightarrow> str_enum option \<Rightarrow> string option \<Rightarrow> bool option
     \<Rightarrow> int option \<Rightarrow> int option \<Rightarrow> string option \<Rightarrow> datetime option \<Rightarrow> datetime option
     \<Rightarrow> request" where
  "get_price_request from_station to_station travel_class travel_type is_joint_journey adults
       children route_id planned_departure_time planned_arrival_time =
     \<lparr>req_method = GET, req_url = TRAVEL_BASE_URL @ ''/api/v3/price'',
      req_params = Some (get_price_params from_station to_station travel_class travel_type
                           is_joint_journey adults children route_id planned_departure_time
                           planned_arrival_time),
      req_headers = None, req_json = None\<rparr>"

definition get_price_v2_params ::
  "string option \<Rightarrow> string option \<Rightarrow> string option \<Rightarrow> string option \<Rightarrow> bool option
     \<Rightarrow> int option \<Rightarrow> int option \<Rightarrow> string option \<Rightarrow> datetime option \<Rightarrow> datetime option
     \<Rightarrow> py dict" where
  "get_price_v2_params from_station to_station travel_class travel_type is_joint_journey
       adults children route_id planned_from_time planned_arrival_time =
     (let is_joint_journey = default_arg False is_joint_journey;
          adults = default_arg 1 adults;
          children = default_arg 0 children;
          params = [(''isJointJourney'', PyBool is_joint_journey),
                    (''adults'', PyInt adults),
                    (''children'', PyInt children)]
      in set_params params
           [(''fromStation'', py_opt PyStr from_station),
            (''toStation'', py_opt PyStr to_station),
            (''travelClass'', py_opt PyStr travel_class),
            (''travelType'', py_opt PyStr travel_type),
            (''routeId'', py_opt PyStr route_id),
            (''plannedFromTime'', py_opt (\<lambda>d. PyStr (isoformat d)) planned_from_time),
            (''plannedArrivalTime'', py_opt (\<lambda>d. PyStr (isoformat d)) planned_arrival_time)])"

definition get_price_v2_request ::
  "string option \<Rightarrow> string option \<Rightarrow> string option \<Rightarrow> string option \<Rightarrow> bool option
     \<Rightarrow> int option \<Rightarrow> int option \<Rightarrow> string option \<Rightarrow> datetime option \<Rightarrow> datetime option
     \<Rightarrow> request" where
  "get_price_v2_request from_station to_station travel_class travel_type is_joint_journey
       adults children route_id planned_from_time planned_arrival_time =
     \<lparr>req_method = GET, req_url = TRAVEL_BASE_URL @ ''/api/v2/price'',
      req_params = Some (get_price_v2_params from_station to_station travel_class travel_type
                           is_joint_journey adults children route_id planned_from_time
                           planned_arrival_time),
      req_headers = None, req_json = None\<rparr>"

text \<open>The deprecated station methods \<^verbatim>\<open>TravelAPI.get_stations\<close> and
  \<^verbatim>\<open>TravelAPI.get_nearest_stations\<close>\<close>

definition get_stations_params ::
  "string option \<Rightarrow> string list option \<Rightarrow> int option \<Rightarrow> py dict" where
  "get_stations_params query country_codes limit =
     (let limit = default_arg 10 limit;
          params = [(''limit'', PyInt limit)];
          params = (case query of None \<Rightarrow> params
                    | Some v \<Rightarrow> setitem params ''q'' (PyStr v));
          params = (case country_codes of None \<Rightarrow> params
                    | Some v \<Rightarrow> setitem params ''countryCodes'' (PyStr (join_comma v)))
      in params)"

definition get_stations_request ::
  "string option \<Rightarrow> string list option \<Rightarrow> int option \<Rightarrow> request" where
  "get_stations_request query country_codes limit =
     \<lparr>req_method = GET, req_url = TRAVEL_BASE_URL @ ''/api/v2/stations'',
      req_params = Some (get_stations_params query country_codes limit),
      req_headers = None, req_json = None\<rparr>"


definition get_nearest_stations_params :: "real \<Rightarrow> real \<Rightarrow> int option \<Rightarrow> py dict" where
  "get_nearest_stations_params lat lng limit =
     (let limit = default_arg 2 limit
      in [(''lat'', PyFloat lat), (''lng'', PyFloat lng), (''limit'', PyInt limit)])"

definition get_nearest_stations_request :: "real \<Rightarrow> real \<Rightarrow> int option \<Rightarrow> request" where
  "get_nearest_stations_request lat lng limit =
     \<lparr>req_method = GET, req_url = TRAVEL_BASE_URL @ ''/api/v2/stations/nearest'',
      req_params = Some (get_nearest_stations_params lat lng limit),
      req_headers = None, req_json = None\<rparr>"


text \<open>The deprecated disruption methods \<^verbatim>\<open>TravelAPI.get_calamities\<close>,
  \<^verbatim>\<open>TravelAPI.list_disruptions\<close>, \<^verbatim>\<open>TravelAPI.list_station_disruptions\<close> and
  \<^verbatim>\<open>TravelAPI.get_disruption\<close>; the last three return the decoded body as it is.\<close>

definition get_calamities_params :: "string option \<Rightarrow> py dict" where
  "get_calamities_params language =
     (let params = []
      in set_params params [(''lang'', py_opt PyStr language)])"

definition get_calamities_request :: "string option \<Rightarrow> request" where
  "get_calamities_request language =
     \<lparr>req_method = GET, req_url = TRAVEL_BASE_URL @ ''/api/v1/calamities'',
      req_params = Some (get_calamities_params language),
      req_headers = None, req_json = None\<rparr>"


definition list_disruptions_params :: "string list option \<Rightarrow> bool option \<Rightarrow> py dict" where
  "list_disruptions_params disruption_type is_active =
     (let is_active = default_arg False is_active;
          params = [(''isActive'', PyBool is_active)];
          params = (case disruption_type of None \<Rightarrow> params
                    | Some v \<Rightarrow> setitem params ''type'' (PyStrs v))
      in params)"

definition list_disruptions_request ::
  "string list option \<Rightarrow> bool option \<Rightarrow> string option \<Rightarrow> request" where
  "list_disruptions_request disruption_type is_active language =
     \<lparr>req_method = GET, req_url = TRAVEL_BASE_URL @ ''/api/v3/disruptions'',
      req_params = Some (list_disruptions_params disruption_type is_active),
      req_headers = accept_language_headers language, req_json = None\<rparr>"


definition list_station_disruptions_request :: "string \<Rightarrow> request" where
  "list_station_disruptions_request station_code =
     \<lparr>req_method = GET,
      req_url = TRAVEL_BASE_URL @ ''/api/v3/disruptions/station/'' @ station_code,
      req_params = None, req_headers = None, req_json = None\<rparr>"


definition get_disruption_request :: "string \<Rightarrow> string \<Rightarrow> request" where
  "get_disruption_request disruption_type disruption_id =
     \<lparr>req_method = GET,
      req_url = TRAVEL_BASE_URL @ ''/api/v3/disruptions/'' @ disruption_type @ ''/''
                  @ disruption_id,
      req_params = None, req_headers = None, req_json = None\<rparr>"


text \<open>
  \<^verbatim>\<open>TravelAPI.plan_trip\<close>. Its keyword arguments, in the order of the signature;
  \<^verbatim>\<open>context\<close> is written \<open>context'\<close>. Only \<^verbatim>\<open>search_for_arrival\<close> has a default
  other than \<^verbatim>\<open>None\<close>.
\<close>

record plan_trip_args =
  from_station :: "string option"
  to_station :: "string option"
  origin_uic_code :: "string option"
  origin_lat :: "real option"
  origin_lng :: "real option"
  origin_name :: "string option"
  destination_uic_code :: "string option"
  destination_lat :: "real option"
  destination_lng :: "real option"
  destination_name :: "string option"
  via_station :: "string option"
  via_uic_code :: "string option"
  via_lat :: "real option"
  via_lng :: "real option"
  via_wait_time :: "int option"
  date_time :: "datetime option"
  search_for_arrival :: "bool option"
  language :: "string option"
  context' :: "string option"
  add_change_time :: "int option"
  passing :: "bool option"
  local_trains_only :: "bool option"
  exclude_high_speed_trains :: "bool option"
  exclude_trains_with_reservation_required :: "bool option"
  travel_request_type :: "string option"
  filter_transport_mode :: "string option"
  disabled_transport_modalities :: "string list option"
  origin_walk :: "bool option"
  origin_bike :: "bool option"
  origin_car :: "bool option"
  destination_walk :: "bool option"
  destination_bike :: "bool option"
  destination_car :: "bool option"
  first_mile_modality :: "string option"
  last_mile_modality :: "string option"
  entire_trip_modality :: "string option"
  travel_assistance :: "bool option"
  search_for_accessible_trip :: "bool option"
  accessibility_equipment1 :: "string option"
  accessibility_equipment2 :: "string option"
  product :: "string option"
  discount :: "string option"
  travel_class :: "int option"
  authorization :: "string option"
  nsr :: "int option"
  departure :: "bool option"
  shorter_change :: "bool option"
  minimal_change_time :: "int option"
  origin_accessible :: "bool option"
  travel_assistance_transfer_time :: "int option"

text \<open>The call that names no argument at all.\<close>

definition no_args :: plan_trip_args where
  "no_args =
     \<lparr>from_station = None, to_station = None, origin_uic_code = None, origin_lat = None,
      origin_lng = None, origin_name = None, destination_uic_code = None,
      destination_lat = None, destination_lng = None, destination_name = None,
      via_station = None, via_uic_code = None, via_lat = None, via_lng = None,
      via_wait_time = None, date_time = None, search_for_arrival = None, language = None,
      context' = None, add_change_time = None, passing = None, local_trains_only = None,
      exclude_high_speed_trains = None, exclude_trains_with_reservation_required = None,
      travel_request_type = None, filter_transport_mode = None,
      disabled_transport_modalities = None, origin_walk = None, origin_bike = None,
      origin_car = None, destination_walk = None, destination_bike = None,
      destination_car = None, first_mile_modality = None, last_mile_modality = None,
      entire_trip_modality = None, travel_assistance = None,
      search_for_accessible_trip = None, accessibility_equipment1 = None,
      accessibility_equipment2 = None, product = None, discount = None, travel_class = None,
      authorization = None, nsr = None, departure = None, shorter_change = None,
      minimal_change_time = None, origin_accessible = None,
      travel_assistance_transfer_time = None\<rparr>"


text \<open>The forty-nine \<^verbatim>\<open>_set(params, key, value)\<close> calls, line by line.\<close>

definition plan_trip_set_calls :: "plan_trip_args \<Rightarrow> (string \<times> py) list" where
  "plan_trip_set_calls a =
     [(''fromStation'', py_opt PyStr (from_station a)),
      (''toStation'', py_opt PyStr (to_station a)),
      (''originUicCode'', py_opt PyStr (origin_uic_code a)),
      (''originLat'', py_opt PyFloat (origin_lat a)),
      (''originLng'', py_opt PyFloat (origin_lng a)),
      (''originName'', py_opt PyStr (origin_name a)),
      (''destinationUicCode'', py_opt PyStr (destination_uic_code a)),
      (''destinationLat'', py_opt PyFloat (destination_lat a)),
      (''destinationLng'', py_opt PyFloat (destination_lng a)),
      (''destinationName'', py_opt PyStr (destination_name a)),
      (''viaStation'', py_opt PyStr (via_station a)),
      (''viaUicCode'', py_opt PyStr (via_uic_code a)),
      (''viaLat'', py_opt PyFloat (via_lat a)),
      (''viaLng'', py_opt PyFloat (via_lng a)),
      (''viaWaitTime'', py_opt PyInt (via_wait_time a)),
      (''dateTime'', py_opt (\<lambda>d. PyStr (isoformat d)) (date_time a)),
      (''searchForArrival'', or_None (default_arg False (search_for_arrival a))),
      (''lang'', py_opt PyStr (language a)),
      (''context'', py_opt PyStr (context' a)),
      (''addChangeTime'', py_opt PyInt (add_change_time a)),
      (''passing'', py_opt PyBool (passing a)),
      (''localTrainsOnly'', py_opt PyBool (local_trains_only a)),
      (''excludeHighSpeedTrains'', py_opt PyBool (exclude_high_speed_trains a)),
      (''excludeTrainsWithReservationRequired'',
         py_opt PyBool (exclude_trains_with_reservation_required a)),
      (''travelRequestType'', py_opt PyStr (travel_request_type a)),
      (''filterTransportMode'', py_opt PyStr (filter_transport_mode a)),
      (''disabledTransportModalities'', py_opt PyStrs (disabled_transport_modalities a)),
      (''originWalk'', py_opt PyBool (origin_walk a)),
      (''originBike'', py_opt PyBool (origin_bike a)),
      (''originCar'', py_opt PyBool (origin_car a)),
      (''destinationWalk'', py_opt PyBool (destination_walk a)),
      (''destinationBike'', py_opt PyBool (destination_bike a)),
      (''destinationCar'', py_opt PyBool (destination_car a)),
      (''firstMileModality'', py_opt PyStr (first_mile_modality a)),
      (''lastMileModality'', py_opt PyStr (last_mile_modality a)),
      (''entireTripModality'', py_opt PyStr (entire_trip_modality a)),
      (''travelAssistance'', py_opt PyBool (travel_assistance a)),
      (''searchForAccessibleTrip'', py_opt PyBool (search_for_accessible_trip a)),
      (''accessibilityEquipment1'', py_opt PyStr (accessibility_equipment1 a)),
      (''accessibilityEquipment2'', py_opt PyStr (accessibility_equipment2 a)),
      (''product'', py_opt PyStr (product a)),
      (''discount'', py_opt PyStr (discount a)),
      (''travelClass'', py_opt PyInt (travel_class a)),
      (''nsr'', py_opt PyInt (nsr a)),
      (''departure'', py_opt PyBool (departure a)),
      (''shorterChange'', py_opt PyBool (shorter_change a)),
      (''minimalChangeTime'', py_opt PyInt (minimal_change_time a)),
      (''originAccessible'', py_opt PyBool (origin_accessible a)),
      (''travelAssistanceTransferTime'', py_opt PyInt (travel_assistance_transfer_time a))]"

definition plan_trip_params :: "plan_trip_args \<Rightarrow> py dict" where
  "plan_trip_params a = (let params = [] in set_params params (plan_trip_set_calls a))"

definition plan_trip_headers :: "plan_trip_args \<Rightarrow> string dict option" where
  "plan_trip_headers a =
     (let headers = None;
          headers = (case authorization a of None \<Rightarrow> headers
                     | Some v \<Rightarrow> Some [(''Authorization'', v)])
      in headers)"

definition plan_trip_request :: "plan_trip_args \<Rightarrow> request" where
  "plan_trip_request a =
     \<lparr>req_method = GET, req_url = TRAVEL_BASE_URL @ ''/api/v3/trips'',
      req_params = Some (plan_trip_params a),
      req_headers = plan_trip_headers a, req_json = None\<rparr>"


section \<open>What the specification says about query parameters\<close>

text \<open>
  The rule of the specification, "a parameter is included in the query only when the
  caller supplied a value", as a function of the bindings of a method (each query key
  with the Python value of its argument): the bindings whose value is not \<^verbatim>\<open>None\<close>, in
  order. \<open>given\<close> counts a supplied argument.
\<close>

definition supplied :: "(string \<times> py) list \<Rightarrow> py dict" where
  "supplied bindings = filter (\<lambda>kv. snd kv \<noteq> PyNone) bindings"




section \<open>Sample validators and responses\<close>

text \<open>
  Stand-ins for the pydantic validators, for evaluating the dispatcher on concrete
  items: the one for a calamity asks for a string \<^verbatim>\<open>topic\<close>, the one for a
  disruption for a string \<^verbatim>\<open>title\<close>, and each returns that string. The two items are
  cut down from \<^verbatim>\<open>MINIMAL_DISRUPTION\<close> and \<^verbatim>\<open>MINIMAL_CALAMITY\<close> of the test suite.
\<close>

definition require_str :: "string \<Rightarrow> py \<Rightarrow> error + string" where
  "require_str field item =
     (case item of
        PyDict d \<Rightarrow>
          (case map_of d field of Some (PyStr s) \<Rightarrow> Inr s | _ \<Rightarrow> Inl ValidationError)
      | _ \<Rightarrow> Inl ValidationError)"

definition sample_disruption :: py where
  "sample_disruption =
     PyDict [(''id'', PyStr ''dis-123''), (''type'', PyStr ''DISRUPTION''),
             (''isActive'', PyBool True), (''title'', PyStr ''Test disruption'')]"

definition sample_calamity :: py where
  "sample_calamity =
     PyDict [(''id'', PyStr ''cal-123''), (''type'', PyStr ''CALAMITY''),
             (''isActive'', PyBool True), (''title'', PyStr ''Test calamity''),
             (''topic'', PyStr ''test-topic'')]"

text \<open>A server that answers every request with status \<open>s\<close> and the decoded body
  \<open>data\<close>.\<close>

definition answer :: "int \<Rightarrow> py \<Rightarrow> request \<Rightarrow> error + response" where
  "answer s data rq =
     Inr \<lparr>status_code = s, content = ''(body)'', body_text = ''(body)'', json = Inr data\<rparr>"

section \<open>Properties of the transport\<close>

text \<open>Extracting the message never raises: every path of the method returns.\<close>

lemma extract_error_message_total: "\<exists>m. extract_error_message r = Inr m"
  by (simp add: extract_error_message_def split: sum.splits py.splits)

text \<open>
  C1. For every response that is not a success (status outside 200..299) the transport
  raises and never returns a value; the exception carries the extracted message and the
  status code, and its class is fixed by the status code: 401 and 403 give
  \<^verbatim>\<open>AuthenticationError\<close>, 404 gives \<^verbatim>\<open>NotFoundError\<close>, 429 gives
  \<^verbatim>\<open>RateLimitError\<close>, every status from 500 up gives \<^verbatim>\<open>ServerError\<close>, and every other
  status from 400 up gives the generic \<^verbatim>\<open>APIError\<close>.
\<close>

theorem non_success_raises_by_status:
  assumes "\<not> is_success r"
  shows "\<exists>m. extract_error_message r = Inr m
           \<and> (\<forall>v. handle_response r \<noteq> Inr v)
           \<and> (status_code r = 401 \<or> status_code r = 403
                 \<longrightarrow> handle_response r = Inl (AuthenticationError m (status_code r)))
           \<and> (status_code r = 404
                 \<longrightarrow> handle_response r = Inl (NotFoundError m (status_code r)))
           \<and> (status_code r = 429
                 \<longrightarrow> handle_response r = Inl (RateLimitError m (status_code r)))
           \<and> (status_code r \<ge> 500
                 \<longrightarrow> handle_response r = Inl (ServerError m (status_code r)))
           \<and> (status_code r \<ge> 400 \<and> status_code r < 500
                  \<and> status_code r \<notin> {401, 403, 404, 429}
                 \<longrightarrow> handle_response r = Inl (APIError m (status_code r)))"
proof -
  obtain m where m: "extract_error_message r = Inr m"
    using extract_error_message_total by blast
  show ?thesis
    using assms m by (intro exI[of _ m]) (simp add: handle_response_def)
qed

text \<open>One response for each row of the table.\<close>

theorem non_success_raises_by_status_witness:
  "handle_response \<lparr>status_code = 401, content = ''{\"message\": \"Unauthorized\"}'',
       body_text = ''{\"message\": \"Unauthorized\"}'',
       json = Inr (PyDict [(''message'', PyStr ''Unauthorized'')])\<rparr>
     = Inl (AuthenticationError (PyStr ''Unauthorized'') 401)
   \<and> handle_response \<lparr>status_code = 404, content = ''gone'', body_text = ''gone'',
       json = Inl JSONDecodeError\<rparr>
     = Inl (NotFoundError (PyStr ''gone'') 404)
   \<and> handle_response \<lparr>status_code = 429, content = ''slow'', body_text = ''slow'',
       json = Inl JSONDecodeError\<rparr>
     = Inl (RateLimitError (PyStr ''slow'') 429)
   \<and> handle_response \<lparr>status_code = 503, content = ''down'', body_text = ''down'',
       json = Inl JSONDecodeError\<rparr>
     = Inl (ServerError (PyStr ''down'') 503)
   \<and> handle_response \<lparr>status_code = 400, content = ''bad'', body_text = ''bad'',
       json = Inl JSONDecodeError\<rparr>
     = Inl (APIError (PyStr ''bad'') 400)"
proof -
  let ?r1 = "\<lparr>status_code = 401, content = ''{\"message\": \"Unauthorized\"}'',
       body_text = ''{\"message\": \"Unauthorized\"}'',
       json = Inr (PyDict [(''message'', PyStr ''Unauthorized'')])\<rparr>"
  let ?r2 = "\<lparr>status_code = 404, content = ''gone'', body_text = ''gone'',
       json = Inl JSONDecodeError\<rparr>"
  let ?r3 = "\<lparr>status_code = 429, content = ''slow'', body_text = ''slow'',
       json = Inl JSONDecodeError\<rparr>"
  let ?r4 = "\<lparr>status_code = 503, content = ''down'', body_text = ''down'',
       json = Inl JSONDecodeError\<rparr>"
  let ?r5 = "\<lparr>status_code = 400, content = ''bad'', body_text = ''bad'',
       json = Inl JSONDecodeError\<rparr>"
  have n1: "\<not> is_success ?r1" and n2: "\<not> is_success ?r2" and n3: "\<not> is_success ?r3"
    and n4: "\<not> is_success ?r4" and n5: "\<not> is_success ?r5"
    by (simp_all add: is_success_def)
  show ?thesis
    using non_success_raises_by_status[OF n1] non_success_raises_by_status[OF n2]
      non_success_raises_by_status[OF n3] non_success_raises_by_status[OF n4]
      non_success_raises_by_status[OF n5]
    by (simp add: extract_error_message_def dict_get_def)
qed

text \<open>
  C10. The handling is total over the statuses that are not a success, below 400 as
  well: a status outside 200..299 that is none of 401, 403, 404, 429 and is below 500
  (a 3xx such as 304, a 1xx) raises the generic \<^verbatim>\<open>APIError\<close> with the extracted message
  and that status code, and no such response is returned as a value.
\<close>

theorem non_success_outside_table_is_generic:
  assumes "\<not> is_success r"
    and "status_code r \<notin> {401, 403, 404, 429}"
    and "status_code r < 500"
  shows "(\<exists>m. extract_error_message r = Inr m
            \<and> handle_response r = Inl (APIError m (status_code r)))
         \<and> (\<forall>v. handle_response r \<noteq> Inr v)"
proof -
  obtain m where m: "extract_error_message r = Inr m"
    using extract_error_message_total by blast
  have "handle_response r = Inl (APIError m (status_code r))"
    using assms m by (simp add: handle_response_def)
  with m show ?thesis by simp
qed

text \<open>A 304 with an empty body and a 100.\<close>

theorem non_success_outside_table_is_generic_witness:
  "handle_response \<lparr>status_code = 304, content = [], body_text = [],
       json = Inl JSONDecodeError\<rparr> = Inl (APIError (PyStr []) 304)
   \<and> handle_response \<lparr>status_code = 100, content = ''wait'', body_text = ''wait'',
       json = Inl JSONDecodeError\<rparr> = Inl (APIError (PyStr ''wait'') 100)"
proof -
  let ?r1 = "\<lparr>status_code = 304, content = [], body_text = [],
       json = Inl JSONDecodeError\<rparr>"
  let ?r2 = "\<lparr>status_code = 100, content = ''wait'', body_text = ''wait'',
       json = Inl JSONDecodeError\<rparr>"
  have n1: "\<not> is_success ?r1" and n2: "\<not> is_success ?r2"
    by (simp_all add: is_success_def)
  have t1: "status_code ?r1 \<notin> {401, 403, 404, 429}" "status_code ?r1 < 500"
    and t2: "status_code ?r2 \<notin> {401, 403, 404, 429}" "status_code ?r2 < 500"
    by simp_all
  show ?thesis
    using non_success_outside_table_is_generic[OF n1 t1]
      non_success_outside_table_is_generic[OF n2 t2]
    by (simp add: extract_error_message_def)
qed

text \<open>
  C6. The message attached to the exception raised for a response that is not a success
  is the \<^verbatim>\<open>message\<close> entry of the body when the body decodes to a dict that has
  one, and the text of the response when the body does not decode, decodes to something
  that is no dict, or decodes to a dict without that entry; the extraction itself
  returns and raises nothing.
\<close>

theorem error_message_from_body:
  assumes "\<not> is_success r"
  shows "\<exists>e m. handle_response r = Inl e \<and> error_message e = Some m
           \<and> extract_error_message r = Inr m
           \<and> (\<forall>d v. json r = Inr (PyDict d) \<and> map_of d ''message'' = Some v \<longrightarrow> m = v)
           \<and> (\<forall>d. json r = Inr (PyDict d) \<and> map_of d ''message'' = None
                  \<longrightarrow> m = PyStr (body_text r))
           \<and> (\<forall>x. json r = Inr x \<and> (\<forall>d. x \<noteq> PyDict d) \<longrightarrow> m = PyStr (body_text r))
           \<and> (\<forall>x. json r = Inl x \<longrightarrow> m = PyStr (body_text r))"
proof -
  obtain m where m: "extract_error_message r = Inr m"
    using extract_error_message_total by blast
  have raised: "\<exists>e. handle_response r = Inl e \<and> error_message e = Some m"
    using assms m by (simp add: handle_response_def)
  have a: "\<forall>d v. json r = Inr (PyDict d) \<and> map_of d ''message'' = Some v \<longrightarrow> m = v"
    using m by (auto simp: extract_error_message_def dict_get_def)
  have b: "\<forall>d. json r = Inr (PyDict d) \<and> map_of d ''message'' = None
             \<longrightarrow> m = PyStr (body_text r)"
    using m by (auto simp: extract_error_message_def dict_get_def)
  have c: "\<forall>x. json r = Inr x \<and> (\<forall>d. x \<noteq> PyDict d) \<longrightarrow> m = PyStr (body_text r)"
    using m by (auto simp: extract_error_message_def split: py.splits)
  have d: "\<forall>x. json r = Inl x \<longrightarrow> m = PyStr (body_text r)"
    using m by (auto simp: extract_error_message_def)
  from raised m a b c d show ?thesis by blast
qed

text \<open>The two responses of the specification (a 400 with the body
  \<^verbatim>\<open>{"message": "X"}\<close>, a 500 with the text \<^verbatim>\<open>Y\<close>), a dict without the entry
  and a body that is a list.\<close>

theorem error_message_from_body_witness:
  "(\<exists>e. handle_response \<lparr>status_code = 400, content = ''{\"message\": \"X\"}'',
            body_text = ''{\"message\": \"X\"}'',
            json = Inr (PyDict [(''message'', PyStr ''X'')])\<rparr> = Inl e
        \<and> error_message e = Some (PyStr ''X''))
   \<and> (\<exists>e. handle_response \<lparr>status_code = 500, content = ''Y'', body_text = ''Y'',
            json = Inl JSONDecodeError\<rparr> = Inl e
        \<and> error_message e = Some (PyStr ''Y''))
   \<and> (\<exists>e. handle_response \<lparr>status_code = 400, content = ''{\"error\": \"bad\"}'',
            body_text = ''{\"error\": \"bad\"}'',
            json = Inr (PyDict [(''error'', PyStr ''bad'')])\<rparr> = Inl e
        \<and> error_message e = Some (PyStr ''{\"error\": \"bad\"}''))
   \<and> (\<exists>e. handle_response \<lparr>status_code = 502, content = ''[1]'', body_text = ''[1]'',
            json = Inr (PyList [PyInt 1])\<rparr> = Inl e
        \<and> error_message e = Some (PyStr ''[1]''))"
proof -
  let ?r1 = "\<lparr>status_code = 400, content = ''{\"message\": \"X\"}'',
            body_text = ''{\"message\": \"X\"}'',
            json = Inr (PyDict [(''message'', PyStr ''X'')])\<rparr>"
  let ?r2 = "\<lparr>status_code = 500, content = ''Y'', body_text = ''Y'',
            json = Inl JSONDecodeError\<rparr>"
  let ?r3 = "\<lparr>status_code = 400, content = ''{\"error\": \"bad\"}'',
            body_text = ''{\"error\": \"bad\"}'',
            json = Inr (PyDict [(''error'', PyStr ''bad'')])\<rparr>"
  let ?r4 = "\<lparr>status_code = 502, content = ''[1]'', body_text = ''[1]'',
            json = Inr (PyList [PyInt 1])\<rparr>"
  have n1: "\<not> is_success ?r1" and n2: "\<not> is_success ?r2" and n3: "\<not> is_success ?r3"
    and n4: "\<not> is_success ?r4"
    by (simp_all add: is_success_def)
  have w1: "\<exists>e. handle_response ?r1 = Inl e \<and> error_message e = Some (PyStr ''X'')"
    using error_message_from_body[OF n1] by auto
  have w2: "\<exists>e. handle_response ?r2 = Inl e \<and> error_message e = Some (PyStr ''Y'')"
    using error_message_from_body[OF n2] by auto
  have w3: "\<exists>e. handle_response ?r3 = Inl e
              \<and> error_message e = Some (PyStr ''{\"error\": \"bad\"}'')"
    using error_message_from_body[OF n3] by auto
  have w4: "\<exists>e. handle_response ?r4 = Inl e \<and> error_message e = Some (PyStr ''[1]'')"
    using error_message_from_body[OF n4] by auto
  from w1 w2 w3 w4 show ?thesis by blast
qed

text \<open>
  C7. For a successful response the transport returns \<^verbatim>\<open>None\<close> when the body is
  empty, which is neither the empty dict nor the empty list, and otherwise the outcome of
  decoding the body, unchanged: with a body that decodes, the decoded value is returned
  and nothing is raised.
\<close>

theorem success_returns_body_or_no_content:
  assumes "is_success r"
  shows "(content r = [] \<longrightarrow> handle_response r = Inr PyNone)
         \<and> (content r \<noteq> [] \<longrightarrow> handle_response r = json r)
         \<and> (\<forall>data. content r \<noteq> [] \<and> json r = Inr data \<longrightarrow> handle_response r = Inr data)
         \<and> PyNone \<noteq> PyDict [] \<and> PyNone \<noteq> PyList []"
  using assms by (simp add: handle_response_def)

text \<open>A 204 without a body, a 200 whose body is the empty object, a 200 with an
  object.\<close>

theorem success_returns_body_or_no_content_witness:
  "handle_response \<lparr>status_code = 204, content = [], body_text = [],
       json = Inl JSONDecodeError\<rparr> = Inr PyNone
   \<and> handle_response \<lparr>status_code = 200, content = ''{}'', body_text = ''{}'',
       json = Inr (PyDict [])\<rparr> = Inr (PyDict [])
   \<and> handle_response \<lparr>status_code = 200, content = ''{\"key\": \"value\"}'',
       body_text = ''{\"key\": \"value\"}'',
       json = Inr (PyDict [(''key'', PyStr ''value'')])\<rparr>
     = Inr (PyDict [(''key'', PyStr ''value'')])"
proof -
  let ?r1 = "\<lparr>status_code = 204, content = [], body_text = [],
       json = Inl JSONDecodeError\<rparr>"
  let ?r2 = "\<lparr>status_code = 200, content = ''{}'', body_text = ''{}'',
       json = Inr (PyDict [])\<rparr>"
  let ?r3 = "\<lparr>status_code = 200, content = ''{\"key\": \"value\"}'',
       body_text = ''{\"key\": \"value\"}'',
       json = Inr (PyDict [(''key'', PyStr ''value'')])\<rparr>"
  have s1: "is_success ?r1" and s2: "is_success ?r2" and s3: "is_success ?r3"
    by (simp_all add: is_success_def)
  show ?thesis
    using success_returns_body_or_no_content[OF s1] success_returns_body_or_no_content[OF s2]
      success_returns_body_or_no_content[OF s3]
    by simp
qed

section \<open>Properties of the lifecycle\<close>

text \<open>
  C9. \<^verbatim>\<open>__exit__\<close> of the transport and of the client call \<^verbatim>\<open>close\<close> whatever
  arguments they receive, and the connection pool is closed afterwards; a \<^verbatim>\<open>with\<close>
  block over either ends with the pool closed on every path, whether the body returned
  or raised, and the outcome of the body is the outcome of the block.
\<close>

theorem exit_always_closes:
  "HttpTransport_exit args t = HttpTransport_close t
   \<and> is_closed (client (HttpTransport_exit args t))
   \<and> NSClient_exit args' c = NSClient_close c
   \<and> is_closed (client (transport (NSClient_exit args' c)))
   \<and> fst (with_HttpTransport body t) = fst (body t)
   \<and> is_closed (client (snd (with_HttpTransport body t)))
   \<and> fst (with_NSClient body' c) = fst (body' c)
   \<and> is_closed (client (transport (snd (with_NSClient body' c))))"
  by (simp add: HttpTransport_exit_def HttpTransport_close_def httpx_close_def
        NSClient_exit_def NSClient_close_def with_HttpTransport_def with_NSClient_def
        HttpTransport_enter_def NSClient_enter_def split: prod.splits)

text \<open>A client whose body raises: the pool, open before, is closed after the block
  and the exception is the outcome.\<close>

theorem exit_always_closes_witness:
  "is_closed (client (transport (snd (with_NSClient (\<lambda>c. (Inl HTTPError :: error + unit, c))
      (NSClient_init ''key'' 30)))))
   \<and> fst (with_NSClient (\<lambda>c. (Inl HTTPError :: error + unit, c)) (NSClient_init ''key'' 30))
       = Inl HTTPError
   \<and> \<not> is_closed (client (transport (NSClient_init ''key'' 30)))"
  using exit_always_closes[where body' = "\<lambda>c. (Inl HTTPError :: error + unit, c)"
      and c = "NSClient_init ''key'' 30" and args = "[] :: unit list"
      and args' = "[] :: unit list" and t = "HttpTransport_init ''key'' 30"
      and body = "\<lambda>t. (Inl HTTPError :: error + unit, t)"]
  by (simp add: NSClient_init_def HttpTransport_init_def)

section \<open>Properties of the disruption dispatcher\<close>

text \<open>The comprehension succeeds exactly when every item parses, and then the results
  stand in the order of the items.\<close>

lemma parse_items_all2:
  "parse_items cv dv items = Inr xs
     \<longleftrightarrow> list_all2 (\<lambda>item x. parse_item cv dv item = Inr x) items xs"
proof (induction items arbitrary: xs)
  case Nil
  show ?case by auto
next
  case (Cons item rest)
  show ?case
  proof (cases "parse_item cv dv item")
    case (Inl e)
    then show ?thesis by (auto simp: list_all2_Cons1)
  next
    case (Inr x)
    show ?thesis
    proof (cases "parse_items cv dv rest")
      case (Inl e)
      with Inr Cons.IH show ?thesis by (auto simp: list_all2_Cons1)
    next
      case right: (Inr ys)
      with Inr Cons.IH show ?thesis by (auto simp: list_all2_Cons1)
    qed
  qed
qed

text \<open>
  C4. An item whose \<^verbatim>\<open>type\<close> entry is the string \<^verbatim>\<open>CALAMITY\<close> is validated as a
  calamity, every other item as a disruption. The entry is read before any validation:
  only the validator it selects is consulted, so replacing the other validator changes
  nothing. A list is parsed item by item, each on its own, and the results keep the order
  of the items; \<^verbatim>\<open>DisruptionsAPI.list\<close> returns that list for the body the transport
  decoded.
\<close>

theorem dispatch_on_type_field:
  "(map_of d ''type'' = Some (PyStr ''CALAMITY'')
      \<longrightarrow> parse_item cv dv (PyDict d)
            = (case cv (PyDict d) of Inl e \<Rightarrow> Inl e | Inr c \<Rightarrow> Inr (IsCalamity c))
          \<and> parse_item cv dv (PyDict d) = parse_item cv dv' (PyDict d))
   \<and> (map_of d ''type'' \<noteq> Some (PyStr ''CALAMITY'')
      \<longrightarrow> parse_item cv dv (PyDict d)
            = (case dv (PyDict d) of Inl e \<Rightarrow> Inl e | Inr x \<Rightarrow> Inr (IsDisruption x))
          \<and> parse_item cv dv (PyDict d) = parse_item cv' dv (PyDict d))
   \<and> (parse_items cv dv items = Inr xs
      \<longleftrightarrow> list_all2 (\<lambda>item x. parse_item cv dv item = Inr x) items xs)
   \<and> (perform send (DisruptionsAPI_list_request is_active disruption_type lang)
          = Inr (PyList items)
      \<longrightarrow> DisruptionsAPI_list send cv dv is_active disruption_type lang
          = parse_items cv dv items)"
proof -
  have a: "map_of d ''type'' = Some (PyStr ''CALAMITY'')
      \<longrightarrow> parse_item cv dv (PyDict d)
            = (case cv (PyDict d) of Inl e \<Rightarrow> Inl e | Inr c \<Rightarrow> Inr (IsCalamity c))
          \<and> parse_item cv dv (PyDict d) = parse_item cv dv' (PyDict d)"
    by (simp add: parse_item_def dict_get_def)
  have b: "map_of d ''type'' \<noteq> Some (PyStr ''CALAMITY'')
      \<longrightarrow> parse_item cv dv (PyDict d)
            = (case dv (PyDict d) of Inl e \<Rightarrow> Inl e | Inr x \<Rightarrow> Inr (IsDisruption x))
          \<and> parse_item cv dv (PyDict d) = parse_item cv' dv (PyDict d)"
    by (simp add: parse_item_def dict_get_def split: option.splits)
  have c: "perform send (DisruptionsAPI_list_request is_active disruption_type lang)
          = Inr (PyList items)
      \<longrightarrow> DisruptionsAPI_list send cv dv is_active disruption_type lang
          = parse_items cv dv items"
    by (simp add: DisruptionsAPI_list_def parse_all_def iterate_def)
  from a b c parse_items_all2[of cv dv items xs] show ?thesis by blast
qed

text \<open>The mixed list of the test suite: a disruption, then a calamity (which also has a
  \<^verbatim>\<open>title\<close>, as a disruption would).\<close>

theorem dispatch_on_type_field_witness:
  "parse_item (require_str ''topic'') (require_str ''title'') sample_disruption
     = Inr (IsDisruption ''Test disruption'')
   \<and> parse_item (require_str ''topic'') (require_str ''title'') sample_calamity
     = Inr (IsCalamity ''test-topic'')
   \<and> parse_items (require_str ''topic'') (require_str ''title'')
       [sample_disruption, sample_calamity]
     = Inr [IsDisruption ''Test disruption'', IsCalamity ''test-topic'']
   \<and> DisruptionsAPI_list (answer 200 (PyList [sample_disruption, sample_calamity]))
       (require_str ''topic'') (require_str ''title'') None None None
     = Inr [IsDisruption ''Test disruption'', IsCalamity ''test-topic'']"
proof -
  let ?cv = "require_str ''topic''" and ?dv = "require_str ''title''"
  let ?items = "[sample_disruption, sample_calamity]"
  let ?xs = "[IsDisruption ''Test disruption'', IsCalamity ''test-topic'']"
  let ?send = "answer 200 (PyList ?items)"
  have p1: "parse_item ?cv ?dv sample_disruption = Inr (IsDisruption ''Test disruption'')"
    using dispatch_on_type_field[where cv = ?cv and dv = ?dv and dv' = ?dv and cv' = ?cv
        and items = ?items and xs = ?xs and send = ?send
        and is_active = None and disruption_type = None and lang = None
        and d = "[(''id'', PyStr ''dis-123''), (''type'', PyStr ''DISRUPTION''),
                  (''isActive'', PyBool True), (''title'', PyStr ''Test disruption'')]"]
    by (simp add: sample_disruption_def require_str_def)
  have p2: "parse_item ?cv ?dv sample_calamity = Inr (IsCalamity ''test-topic'')"
    using dispatch_on_type_field[where cv = ?cv and dv = ?dv and dv' = ?dv and cv' = ?cv
        and items = ?items and xs = ?xs and send = ?send
        and is_active = None and disruption_type = None and lang = None
        and d = "[(''id'', PyStr ''cal-123''), (''type'', PyStr ''CALAMITY''),
                  (''isActive'', PyBool True), (''title'', PyStr ''Test calamity''),
                  (''topic'', PyStr ''test-topic'')]"]
    by (simp add: sample_calamity_def require_str_def)
  have sent: "perform ?send (DisruptionsAPI_list_request None None None) = Inr (PyList ?items)"
    by (simp add: perform_def DisruptionsAPI_list_request_def HttpTransport_get_def
          answer_def handle_response_def is_success_def)
  have p3: "parse_items ?cv ?dv ?items = Inr ?xs"
    using dispatch_on_type_field[where cv = ?cv and dv = ?dv and dv' = ?dv and cv' = ?cv
        and items = ?items and xs = ?xs and send = ?send
        and is_active = None and disruption_type = None and lang = None and d = "[]"]
      p1 p2
    by simp
  have p4: "DisruptionsAPI_list ?send ?cv ?dv None None None = Inr ?xs"
    using dispatch_on_type_field[where cv = ?cv and dv = ?dv and dv' = ?dv and cv' = ?cv
        and items = ?items and xs = ?xs and send = ?send
        and is_active = None and disruption_type = None and lang = None and d = "[]"]
      sent p3
    by simp
  from p1 p2 p3 p4 show ?thesis by simp
qed

section \<open>Properties of the query parameters\<close>

text \<open>A key that is not yet in a dict is appended by an assignment.\<close>

lemma update_fresh: "k \<notin> fst ` set al \<Longrightarrow> AList.update k v al = al @ [(k, v)]"
  by (induction al) auto

lemma setitem_fresh: "k \<notin> keys d \<Longrightarrow> setitem d k v = d @ [(k, v)]"
  by (simp add: setitem_def keys_def update_fresh)

text \<open>A run of \<^verbatim>\<open>_set\<close> calls with pairwise different keys, none of them in the
  dict yet, appends the bindings that have a value.\<close>

lemma set_params_supplied:
  "distinct (map fst calls) \<Longrightarrow> keys p \<inter> fst ` set calls = {}
     \<Longrightarrow> set_params p calls = p @ supplied calls"
proof (induction calls arbitrary: p)
  case Nil
  then show ?case by (simp add: set_params_def supplied_def)
next
  case (Cons kv calls)
  obtain k v where kv: "kv = (k, v)" by (cases kv)
  have fresh: "k \<notin> keys p" using Cons.prems(2) kv by auto
  have step: "set_params p (kv # calls) = set_params (set_param p k v) calls"
    by (simp add: set_params_def kv)
  have d: "distinct (map fst calls)" using Cons.prems(1) by simp
  show ?case
  proof (cases "v = PyNone")
    case True
    have "keys p \<inter> fst ` set calls = {}" using Cons.prems(2) by auto
    from Cons.IH[OF d this] True step show ?thesis
      by (simp add: set_param_def supplied_def kv)
  next
    case False
    have sp: "set_param p k v = p @ [(k, v)]"
      using False fresh by (simp add: set_param_def setitem_fresh)
    have "keys (p @ [(k, v)]) \<inter> fst ` set calls = {}"
      using Cons.prems kv by (auto simp: keys_def)
    from Cons.IH[OF d this] False step sp show ?thesis
      by (simp add: supplied_def kv)
  qed
qed


lemma supplied_keys: "keys (supplied bindings) = {k. \<exists>v. (k, v) \<in> set bindings \<and> v \<noteq> PyNone}"
  by (auto simp: keys_def supplied_def image_iff)

lemma supplied_lookup:
  "distinct (map fst bindings) \<Longrightarrow> (k, v) \<in> set bindings
     \<Longrightarrow> map_of (supplied bindings) k = (if v = PyNone then None else Some v)"
proof (induction bindings)
  case Nil
  then show ?case by simp
next
  case (Cons kv bindings)
  then show ?case
    by (cases kv) (auto simp: supplied_def map_of_eq_None_iff image_iff)
qed

text \<open>Each method's dictionary is the supplied part of its bindings.\<close>

lemma DisruptionsAPI_list_supplied:
  "DisruptionsAPI_list_params ia dt =
     supplied [(''isActive'', py_opt PyBool ia),
               (''type'', py_opt (\<lambda>t. PyStr (member_value t)) dt)]"
  by (simp add: DisruptionsAPI_list_params_def supplied_def py_opt_def setitem_def
        split: option.splits)

lemma StationsAPI_list_v2_supplied:
  "StationsAPI_list_v2_params q cc inp n =
     supplied [(''q'', py_opt PyStr q), (''countryCodes'', py_opt PyStr cc),
               (''includeNonPlannableStations'', py_opt PyBool inp),
               (''limit'', py_opt PyInt n)]"
  by (simp add: StationsAPI_list_v2_params_def supplied_def py_opt_def setitem_def
        split: option.splits)

lemma StationsAPI_list_v3_supplied:
  "StationsAPI_list_v3_params q cc inp n =
     supplied [(''q'', py_opt PyStr q), (''countryCodes'', py_opt PyStr cc),
               (''includeNonPlannableStations'', py_opt PyBool inp),
               (''limit'', py_opt PyInt n)]"
  by (simp add: StationsAPI_list_v3_params_def supplied_def py_opt_def setitem_def
        split: option.splits)

lemma StationsAPI_list_nearest_v2_supplied:
  "StationsAPI_list_nearest_v2_params lat lng n inp =
     supplied [(''lat'', PyFloat lat), (''lng'', PyFloat lng), (''limit'', py_opt PyInt n),
               (''includeNonPlannableStations'', py_opt PyBool inp)]"
  by (simp add: StationsAPI_list_nearest_v2_params_def supplied_def py_opt_def setitem_def
        split: option.splits)

lemma StationsAPI_list_nearest_v3_supplied:
  "StationsAPI_list_nearest_v3_params lat lng n inp =
     supplied [(''lat'', PyFloat lat), (''lng'', PyFloat lng), (''limit'', py_opt PyInt n),
               (''includeNonPlannableStations'', py_opt PyBool inp)]"
  by (simp add: StationsAPI_list_nearest_v3_params_def supplied_def py_opt_def setitem_def
        split: option.splits)


lemma get_departures_supplied:
  "get_departures_params st uic dt mj lg =
     supplied [(''maxJourneys'', PyInt (default_arg 40 mj)),
               (''station'', if st \<noteq> [] then PyStr st else PyNone),
               (''uicCode'', py_opt PyStr uic),
               (''dateTime'', py_opt (\<lambda>d. PyStr (isoformat d)) dt),
               (''lang'', py_opt PyStr lg)]"
  by (simp add: get_departures_params_def supplied_def py_opt_def setitem_def
        split: option.splits)

lemma get_arrivals_supplied:
  "get_arrivals_params st uic dt mj lg =
     supplied [(''maxJourneys'', PyInt (default_arg 40 mj)),
               (''station'', if st \<noteq> [] then PyStr st else PyNone),
               (''uicCode'', py_opt PyStr uic),
               (''dateTime'', py_opt (\<lambda>d. PyStr (isoformat d)) dt),
               (''lang'', py_opt PyStr lg)]"
  by (simp add: get_arrivals_params_def supplied_def py_opt_def setitem_def
        split: option.splits)

lemma get_journey_supplied:
  "get_journey_params tr jid dt duc tuc auc ocf =
     supplied [(''omitCrowdForecast'', PyBool (default_arg False ocf)),
               (''train'', py_opt PyInt tr), (''id'', py_opt PyStr jid),
               (''dateTime'', py_opt (\<lambda>d. PyStr (isoformat d)) dt),
               (''departureUicCode'', py_opt PyStr duc),
               (''transferUicCode'', py_opt PyStr tuc),
               (''arrivalUicCode'', py_opt PyStr auc)]"
  by (simp add: get_journey_params_def supplied_def py_opt_def setitem_def
        split: option.splits)

lemma get_trip_supplied:
  "get_trip_params ctx dat trt prd disc tc ns scr =
     supplied [(''ctxRecon'', PyStr ctx),
               (''travelRequestType'', PyStr (default_arg ''DEFAULT'' trt)),
               (''date'', py_opt (\<lambda>d. PyStr (isoformat d)) dat),
               (''product'', py_opt PyStr prd),
               (''discount'', py_opt PyStr disc),
               (''travelClass'', py_opt PyInt tc),
               (''nsr'', py_opt PyInt ns),
               (''sourceCtxRecon'', py_opt PyBool scr)]"
  unfolding get_trip_params_def Let_def
  by (subst set_params_supplied) (simp_all add: keys_def supplied_def)

lemma get_booked_trip_supplied:
  "get_booked_trip_params ctx bn otr ae1 ae2 =
     supplied [(''ctxRecon'', PyStr ctx), (''bookingNumber'', PyInt bn),
               (''originalTripRequestId'', PyInt otr),
               (''accessibilityEquipment1'', py_opt PyStr ae1),
               (''accessibilityEquipment2'', py_opt PyStr ae2)]"
  unfolding get_booked_trip_params_def Let_def
  by (subst set_params_supplied) (simp_all add: keys_def supplied_def)

lemma get_price_supplied:
  "get_price_params fs ts tc tt jj ad ch rid pdt pat =
     supplied [(''isJointJourney'', PyBool (default_arg False jj)),
               (''adults'', PyInt (default_arg 1 ad)),
               (''children'', PyInt (default_arg 0 ch)),
               (''fromStation'', py_opt PyStr fs),
               (''toStation'', py_opt PyStr ts),
               (''travelClass'', py_opt (\<lambda>t. PyStr (member_value t)) tc),
               (''travelType'', py_opt PyStr tt),
               (''routeId'', py_opt PyStr rid),
               (''plannedDepartureTime'', py_opt (\<lambda>d. PyStr (isoformat d)) pdt),
               (''plannedArrivalTime'', py_opt (\<lambda>d. PyStr (isoformat d)) pat)]"
  unfolding get_price_params_def Let_def
  by (subst set_params_supplied) (simp_all add: keys_def supplied_def)

lemma get_price_v2_supplied:
  "get_price_v2_params fs ts tc tt jj ad ch rid pft pat =
     supplied [(''isJointJourney'', PyBool (default_arg False jj)),
               (''adults'', PyInt (default_arg 1 ad)),
               (''children'', PyInt (default_arg 0 ch)),
               (''fromStation'', py_opt PyStr fs),
               (''toStation'', py_opt PyStr ts),
               (''travelClass'', py_opt PyStr tc),
               (''travelType'', py_opt PyStr tt),
               (''routeId'', py_opt PyStr rid),
               (''plannedFromTime'', py_opt (\<lambda>d. PyStr (isoformat d)) pft),
               (''plannedArrivalTime'', py_opt (\<lambda>d. PyStr (isoformat d)) pat)]"
  unfolding get_price_v2_params_def Let_def
  by (subst set_params_supplied) (simp_all add: keys_def supplied_def)

lemma get_stations_supplied:
  "get_stations_params q ccs n =
     supplied [(''limit'', PyInt (default_arg 10 n)), (''q'', py_opt PyStr q),
               (''countryCodes'', py_opt (\<lambda>cs. PyStr (join_comma cs)) ccs)]"
  by (simp add: get_stations_params_def supplied_def py_opt_def setitem_def
        split: option.splits)

lemma get_nearest_stations_supplied:
  "get_nearest_stations_params lat lng n =
     supplied [(''lat'', PyFloat lat), (''lng'', PyFloat lng),
               (''limit'', PyInt (default_arg 2 n))]"
  by (simp add: get_nearest_stations_params_def supplied_def)

lemma get_calamities_supplied:
  "get_calamities_params lg = supplied [(''lang'', py_opt PyStr lg)]"
  unfolding get_calamities_params_def Let_def
  by (subst set_params_supplied) (simp_all add: keys_def supplied_def)

lemma list_disruptions_supplied:
  "list_disruptions_params dts ia =
     supplied [(''isActive'', PyBool (default_arg False ia)), (''type'', py_opt PyStrs dts)]"
  by (simp add: list_disruptions_params_def supplied_def py_opt_def setitem_def PyStrs_def
        split: option.splits)

lemma plan_trip_keys:
  "map fst (plan_trip_set_calls a) =
     [''fromStation'', ''toStation'', ''originUicCode'', ''originLat'', ''originLng'',
      ''originName'', ''destinationUicCode'', ''destinationLat'', ''destinationLng'',
      ''destinationName'', ''viaStation'', ''viaUicCode'', ''viaLat'', ''viaLng'',
      ''viaWaitTime'', ''dateTime'', ''searchForArrival'', ''lang'', ''context'',
      ''addChangeTime'', ''passing'', ''localTrainsOnly'', ''excludeHighSpeedTrains'',
      ''excludeTrainsWithReservationRequired'', ''travelRequestType'',
      ''filterTransportMode'', ''disabledTransportModalities'', ''originWalk'',
      ''originBike'', ''originCar'', ''destinationWalk'', ''destinationBike'',
      ''destinationCar'', ''firstMileModality'', ''lastMileModality'',
      ''entireTripModality'', ''travelAssistance'', ''searchForAccessibleTrip'',
      ''accessibilityEquipment1'', ''accessibilityEquipment2'', ''product'', ''discount'',
      ''travelClass'', ''nsr'', ''departure'', ''shorterChange'', ''minimalChangeTime'',
      ''originAccessible'', ''travelAssistanceTransferTime'']"
  by (simp add: plan_trip_set_calls_def)

lemma plan_trip_keys_distinct: "distinct (map fst (plan_trip_set_calls a))"
  unfolding plan_trip_keys by simp

lemma plan_trip_supplied: "plan_trip_params a = supplied (plan_trip_set_calls a)"
  using set_params_supplied[OF plan_trip_keys_distinct, of "[]" a]
  by (simp add: plan_trip_params_def keys_def)

lemma plan_trip_lookup:
  "(k, v) \<in> set (plan_trip_set_calls a)
     \<Longrightarrow> map_of (plan_trip_params a) k = (if v = PyNone then None else Some v)"
  unfolding plan_trip_supplied by (rule supplied_lookup[OF plan_trip_keys_distinct])

section \<open>Explicitly false and zero arguments\<close>

lemma supplied_sent:
  "distinct (map fst bindings) \<Longrightarrow> (k, v) \<in> set bindings \<Longrightarrow> v \<noteq> PyNone
     \<Longrightarrow> map_of (supplied bindings) k = Some v"
  by (simp add: supplied_lookup)

text \<open>What each boolean and numeric argument puts into the query, method by method.\<close>

lemma DisruptionsAPI_list_sent:
  "map_of (DisruptionsAPI_list_params (Some b) dty) ''isActive'' = Some (PyBool b)"
  unfolding DisruptionsAPI_list_supplied
  by (rule supplied_sent; simp add: py_opt_def default_arg_def)+

lemma StationsAPI_list_v2_sent:
  "map_of (StationsAPI_list_v2_params q cc (Some b) n) ''includeNonPlannableStations''
     = Some (PyBool b)"
  "map_of (StationsAPI_list_v2_params q cc inp (Some i)) ''limit'' = Some (PyInt i)"
  unfolding StationsAPI_list_v2_supplied
  by (rule supplied_sent; simp add: py_opt_def default_arg_def)+

lemma StationsAPI_list_v3_sent:
  "map_of (StationsAPI_list_v3_params q cc (Some b) n) ''includeNonPlannableStations''
     = Some (PyBool b)"
  "map_of (StationsAPI_list_v3_params q cc inp (Some i)) ''limit'' = Some (PyInt i)"
  unfolding StationsAPI_list_v3_supplied
  by (rule supplied_sent; simp add: py_opt_def default_arg_def)+

lemma StationsAPI_list_nearest_v2_sent:
  "map_of (StationsAPI_list_nearest_v2_params lat lng n inp) ''lat'' = Some (PyFloat lat)"
  "map_of (StationsAPI_list_nearest_v2_params lat lng n inp) ''lng'' = Some (PyFloat lng)"
  "map_of (StationsAPI_list_nearest_v2_params lat lng (Some i) inp) ''limit'' = Some (PyInt i)"
  "map_of (StationsAPI_list_nearest_v2_params lat lng n (Some b)) ''includeNonPlannableStations''
     = Some (PyBool b)"
  unfolding StationsAPI_list_nearest_v2_supplied
  by (rule supplied_sent; simp add: py_opt_def default_arg_def)+

lemma StationsAPI_list_nearest_v3_sent:
  "map_of (StationsAPI_list_nearest_v3_params lat lng n inp) ''lat'' = Some (PyFloat lat)"
  "map_of (StationsAPI_list_nearest_v3_params lat lng n inp) ''lng'' = Some (PyFloat lng)"
  "map_of (StationsAPI_list_nearest_v3_params lat lng (Some i) inp) ''limit'' = Some (PyInt i)"
  "map_of (StationsAPI_list_nearest_v3_params lat lng n (Some b)) ''includeNonPlannableStations''
     = Some (PyBool b)"
  unfolding StationsAPI_list_nearest_v3_supplied
  by (rule supplied_sent; simp add: py_opt_def default_arg_def)+

lemma get_departures_sent:
  "map_of (get_departures_params st uic dt (Some i) lg) ''maxJourneys'' = Some (PyInt i)"
  unfolding get_departures_supplied
  by (rule supplied_sent; simp add: py_opt_def default_arg_def)+

lemma get_arrivals_sent:
  "map_of (get_arrivals_params st uic dt (Some i) lg) ''maxJourneys'' = Some (PyInt i)"
  unfolding get_arrivals_supplied
  by (rule supplied_sent; simp add: py_opt_def default_arg_def)+

lemma get_journey_sent:
  "map_of (get_journey_params (Some i) jid dt duc tuc auc ocf) ''train'' = Some (PyInt i)"
  "map_of (get_journey_params tr jid dt duc tuc auc (Some b)) ''omitCrowdForecast''
     = Some (PyBool b)"
  unfolding get_journey_supplied
  by (rule supplied_sent; simp add: py_opt_def default_arg_def)+

lemma get_trip_sent:
  "map_of (get_trip_params ctx dat trt prd disc (Some i) ns scr) ''travelClass''
     = Some (PyInt i)"
  "map_of (get_trip_params ctx dat trt prd disc tc (Some i) scr) ''nsr'' = Some (PyInt i)"
  "map_of (get_trip_params ctx dat trt prd disc tc ns (Some b)) ''sourceCtxRecon''
     = Some (PyBool b)"
  unfolding get_trip_supplied
  by (rule supplied_sent; simp add: py_opt_def default_arg_def)+

lemma get_booked_trip_sent:
  "map_of (get_booked_trip_params ctx bn otr eqa eqb) ''bookingNumber'' = Some (PyInt bn)"
  "map_of (get_booked_trip_params ctx bn otr eqa eqb) ''originalTripRequestId''
     = Some (PyInt otr)"
  unfolding get_booked_trip_supplied
  by (rule supplied_sent; simp add: py_opt_def default_arg_def)+

lemma get_price_sent:
  "map_of (get_price_params fs ts tcl tt (Some b) ad ch rid pdt pat) ''isJointJourney''
     = Some (PyBool b)"
  "map_of (get_price_params fs ts tcl tt jj (Some i) ch rid pdt pat) ''adults''
     = Some (PyInt i)"
  "map_of (get_price_params fs ts tcl tt jj ad (Some i) rid pdt pat) ''children''
     = Some (PyInt i)"
  unfolding get_price_supplied
  by (rule supplied_sent; simp add: py_opt_def default_arg_def)+

lemma get_price_v2_sent:
  "map_of (get_price_v2_params fs ts tcs tt (Some b) ad ch rid pft pat) ''isJointJourney''
     = Some (PyBool b)"
  "map_of (get_price_v2_params fs ts tcs tt jj (Some i) ch rid pft pat) ''adults''
     = Some (PyInt i)"
  "map_of (get_price_v2_params fs ts tcs tt jj ad (Some i) rid pft pat) ''children''
     = Some (PyInt i)"
  unfolding get_price_v2_supplied
  by (rule supplied_sent; simp add: py_opt_def default_arg_def)+

lemma get_stations_sent:
  "map_of (get_stations_params q ccs (Some i)) ''limit'' = Some (PyInt i)"
  unfolding get_stations_supplied
  by (rule supplied_sent; simp add: py_opt_def default_arg_def)+

lemma get_nearest_stations_sent:
  "map_of (get_nearest_stations_params lat lng n) ''lat'' = Some (PyFloat lat)"
  "map_of (get_nearest_stations_params lat lng n) ''lng'' = Some (PyFloat lng)"
  "map_of (get_nearest_stations_params lat lng (Some i)) ''limit'' = Some (PyInt i)"
  unfolding get_nearest_stations_supplied
  by (rule supplied_sent; simp add: py_opt_def default_arg_def)+

lemma list_disruptions_sent:
  "map_of (list_disruptions_params dts (Some b)) ''isActive'' = Some (PyBool b)"
  unfolding list_disruptions_supplied
  by (rule supplied_sent; simp add: py_opt_def default_arg_def)+

lemma plan_trip_sent:
  "(k, v) \<in> set (plan_trip_set_calls a) \<Longrightarrow> v \<noteq> PyNone
     \<Longrightarrow> map_of (plan_trip_params a) k = Some v"
  by (simp add: plan_trip_lookup)

lemma plan_trip_floats_sent:
  "map_of (plan_trip_params (a\<lparr>origin_lat := Some x\<rparr>)) ''originLat''
     = Some (PyFloat x)"
  "map_of (plan_trip_params (a\<lparr>origin_lng := Some x\<rparr>)) ''originLng''
     = Some (PyFloat x)"
  "map_of (plan_trip_params (a\<lparr>destination_lat := Some x\<rparr>)) ''destinationLat''
     = Some (PyFloat x)"
  "map_of (plan_trip_params (a\<lparr>destination_lng := Some x\<rparr>)) ''destinationLng''
     = Some (PyFloat x)"
  "map_of (plan_trip_params (a\<lparr>via_lat := Some x\<rparr>)) ''viaLat'' = Some (PyFloat x)"
  "map_of (plan_trip_params (a\<lparr>via_lng := Some x\<rparr>)) ''viaLng'' = Some (PyFloat x)"
  by (rule plan_trip_sent; simp add: plan_trip_set_calls_def py_opt_def)+

lemma plan_trip_ints_sent:
  "map_of (plan_trip_params (a\<lparr>via_wait_time := Some i\<rparr>)) ''viaWaitTime''
     = Some (PyInt i)"
  "map_of (plan_trip_params (a\<lparr>add_change_time := Some i\<rparr>)) ''addChangeTime''
     = Some (PyInt i)"
  "map_of (plan_trip_params (a\<lparr>travel_class := Some i\<rparr>)) ''travelClass''
     = Some (PyInt i)"
  "map_of (plan_trip_params (a\<lparr>nsr := Some i\<rparr>)) ''nsr'' = Some (PyInt i)"
  by (rule plan_trip_sent; simp add: plan_trip_set_calls_def py_opt_def)+

lemma plan_trip_bools_sent:
  "map_of (plan_trip_params (a\<lparr>passing := Some b\<rparr>)) ''passing'' = Some (PyBool b)"
  "map_of (plan_trip_params (a\<lparr>local_trains_only := Some b\<rparr>)) ''localTrainsOnly''
     = Some (PyBool b)"
  "map_of (plan_trip_params (a\<lparr>exclude_high_speed_trains := Some b\<rparr>)) ''excludeHighSpeedTrains''
     = Some (PyBool b)"
  "map_of (plan_trip_params (a\<lparr>exclude_trains_with_reservation_required := Some b\<rparr>)) ''excludeTrainsWithReservationRequired''
     = Some (PyBool b)"
  "map_of (plan_trip_params (a\<lparr>origin_walk := Some b\<rparr>)) ''originWalk''
     = Some (PyBool b)"
  "map_of (plan_trip_params (a\<lparr>origin_bike := Some b\<rparr>)) ''originBike''
     = Some (PyBool b)"
  "map_of (plan_trip_params (a\<lparr>origin_car := Some b\<rparr>)) ''originCar''
     = Some (PyBool b)"
  "map_of (plan_trip_params (a\<lparr>destination_walk := Some b\<rparr>)) ''destinationWalk''
     = Some (PyBool b)"
  "map_of (plan_trip_params (a\<lparr>destination_bike := Some b\<rparr>)) ''destinationBike''
     = Some (PyBool b)"
  "map_of (plan_trip_params (a\<lparr>destination_car := Some b\<rparr>)) ''destinationCar''
     = Some (PyBool b)"
  "map_of (plan_trip_params (a\<lparr>travel_assistance := Some b\<rparr>)) ''travelAssistance''
     = Some (PyBool b)"
  "map_of (plan_trip_params (a\<lparr>search_for_accessible_trip := Some b\<rparr>)) ''searchForAccessibleTrip''
     = Some (PyBool b)"
  by (rule plan_trip_sent; simp add: plan_trip_set_calls_def py_opt_def)+

lemma plan_trip_deprecated_sent:
  "map_of (plan_trip_params (a\<lparr>departure := Some b\<rparr>)) ''departure''
     = Some (PyBool b)"
  "map_of (plan_trip_params (a\<lparr>shorter_change := Some b\<rparr>)) ''shorterChange''
     = Some (PyBool b)"
  "map_of (plan_trip_params (a\<lparr>minimal_change_time := Some i\<rparr>)) ''minimalChangeTime''
     = Some (PyInt i)"
  "map_of (plan_trip_params (a\<lparr>origin_accessible := Some b\<rparr>)) ''originAccessible''
     = Some (PyBool b)"
  "map_of (plan_trip_params (a\<lparr>travel_assistance_transfer_time := Some i\<rparr>)) ''travelAssistanceTransferTime''
     = Some (PyInt i)"
  by (rule plan_trip_sent; simp add: plan_trip_set_calls_def py_opt_def)+

lemma plan_trip_search_for_arrival:
  "map_of (plan_trip_params (a\<lparr>search_for_arrival := Some b\<rparr>)) ''searchForArrival''
     = (if b then Some (PyBool True) else None)"
  by (subst plan_trip_lookup[where v = "or_None b"])
     (simp_all add: plan_trip_set_calls_def or_None_def default_arg_def)

text \<open>
  C3, as the specification states it, fails at \<^verbatim>\<open>plan_trip\<close>: the call
  \<^verbatim>\<open>plan_trip("ASD", "UT", search_for_arrival=False)\<close> sends the same query as
  \<^verbatim>\<open>plan_trip("ASD", "UT")\<close>, without the key \<^verbatim>\<open>searchForArrival\<close>, because the
  method passes \<^verbatim>\<open>search_for_arrival or None\<close> to \<^verbatim>\<open>_set\<close>.
\<close>

theorem explicit_false_search_for_arrival_is_dropped:
  "plan_trip_params (no_args\<lparr>from_station := Some ''ASD'', to_station := Some ''UT'',
                             search_for_arrival := Some False\<rparr>)
     = [(''fromStation'', PyStr ''ASD''), (''toStation'', PyStr ''UT'')]
   \<and> ''searchForArrival'' \<notin> keys (plan_trip_params
         (no_args\<lparr>from_station := Some ''ASD'', to_station := Some ''UT'',
                   search_for_arrival := Some False\<rparr>))"
  by (simp add: plan_trip_supplied plan_trip_set_calls_def no_args_def supplied_def
        py_opt_def or_None_def default_arg_def keys_def)

text \<open>
  C3, amended. Every boolean or numeric argument of every endpoint method other than
  \<^verbatim>\<open>search_for_arrival\<close> of \<^verbatim>\<open>plan_trip\<close>, when the caller supplies it, is in the
  query under its key with the value supplied, \<^verbatim>\<open>False\<close> and \<^verbatim>\<open>0\<close> included: what
  decides is whether a value was given (\<^verbatim>\<open>is not None\<close>, or the key is set
  unconditionally), not whether it is truthy. \<^verbatim>\<open>search_for_arrival\<close> is sent as
  \<^verbatim>\<open>True\<close> when it is \<^verbatim>\<open>True\<close> and left out when it is \<^verbatim>\<open>False\<close>.
\<close>

theorem explicit_false_and_zero_are_sent:
  "(map_of (DisruptionsAPI_list_params (Some b) dty) ''isActive'' = Some (PyBool b))
   \<and> (map_of (StationsAPI_list_v2_params q cc (Some b) n) ''includeNonPlannableStations''
       = Some (PyBool b))
   \<and> (map_of (StationsAPI_list_v2_params q cc inp (Some i)) ''limit'' = Some (PyInt i))
   \<and> (map_of (StationsAPI_list_v3_params q cc (Some b) n) ''includeNonPlannableStations''
       = Some (PyBool b))
   \<and> (map_of (StationsAPI_list_v3_params q cc inp (Some i)) ''limit'' = Some (PyInt i))
   \<and> (map_of (StationsAPI_list_nearest_v2_params lat lng n inp) ''lat'' = Some (PyFloat lat))
   \<and> (map_of (StationsAPI_list_nearest_v2_params lat lng n inp) ''lng'' = Some (PyFloat lng))
   \<and> (map_of (StationsAPI_list_nearest_v2_params lat lng (Some i) inp) ''limit''
       = Some (PyInt i))
   \<and> (map_of (StationsAPI_list_nearest_v2_params lat lng n (Some b)) ''includeNonPlannableStations''
       = Some (PyBool b))
   \<and> (map_of (StationsAPI_list_nearest_v3_params lat lng n inp) ''lat'' = Some (PyFloat lat))
   \<and> (map_of (StationsAPI_list_nearest_v3_params lat lng n inp) ''lng'' = Some (PyFloat lng))
   \<and> (map_of (StationsAPI_list_nearest_v3_params lat lng (Some i) inp) ''limit''
       = Some (PyInt i))
   \<and> (map_of (StationsAPI_list_nearest_v3_params lat lng n (Some b)) ''includeNonPlannableStations''
       = Some (PyBool b))
   \<and> (map_of (get_departures_params st uic dt (Some i) lg) ''maxJourneys'' = Some (PyInt i))
   \<and> (map_of (get_arrivals_params st uic dt (Some i) lg) ''maxJourneys'' = Some (PyInt i))
   \<and> (map_of (get_journey_params (Some i) jid dt duc tuc auc ocf) ''train'' = Some (PyInt i))
   \<and> (map_of (get_journey_params tr jid dt duc tuc auc (Some b)) ''omitCrowdForecast''
       = Some (PyBool b))
   \<and> (map_of (plan_trip_params (a\<lparr>origin_lat := Some x\<rparr>)) ''originLat''
       = Some (PyFloat x))
   \<and> (map_of (plan_trip_params (a\<lparr>origin_lng := Some x\<rparr>)) ''originLng''
       = Some (PyFloat x))
   \<and> (map_of (plan_trip_params (a\<lparr>destination_lat := Some x\<rparr>)) ''destinationLat''
       = Some (PyFloat x))
   \<and> (map_of (plan_trip_params (a\<lparr>destination_lng := Some x\<rparr>)) ''destinationLng''
       = Some (PyFloat x))
   \<and> (map_of (plan_trip_params (a\<lparr>via_lat := Some x\<rparr>)) ''viaLat''
       = Some (PyFloat x))
   \<and> (map_of (plan_trip_params (a\<lparr>via_lng := Some x\<rparr>)) ''viaLng''
       = Some (PyFloat x))
   \<and> (map_of (plan_trip_params (a\<lparr>via_wait_time := Some i\<rparr>)) ''viaWaitTime''
       = Some (PyInt i))
   \<and> (map_of (plan_trip_params (a\<lparr>add_change_time := Some i\<rparr>)) ''addChangeTime''
       = Some (PyInt i))
   \<and> (map_of (plan_trip_params (a\<lparr>travel_class := Some i\<rparr>)) ''travelClass''
       = Some (PyInt i))
   \<and> (map_of (plan_trip_params (a\<lparr>nsr := Some i\<rparr>)) ''nsr'' = Some (PyInt i))
   \<and> (map_of (plan_trip_params (a\<lparr>passing := Some b\<rparr>)) ''passing''
       = Some (PyBool b))
   \<and> (map_of (plan_trip_params (a\<lparr>local_trains_only := Some b\<rparr>)) ''localTrainsOnly''
       = Some (PyBool b))
   \<and> (map_of (plan_trip_params (a\<lparr>exclude_high_speed_trains := Some b\<rparr>)) ''excludeHighSpeedTrains''
       = Some (PyBool b))
   \<and> (map_of (plan_trip_params (a\<lparr>exclude_trains_with_reservation_required := Some b\<rparr>)) ''excludeTrainsWithReservationRequired''
       = Some (PyBool b))
   \<and> (map_of (plan_trip_params (a\<lparr>origin_walk := Some b\<rparr>)) ''originWalk''
       = Some (PyBool b))
   \<and> (map_of (plan_trip_params (a\<lparr>origin_bike := Some b\<rparr>)) ''originBike''
       = Some (PyBool b))
   \<and> (map_of (plan_trip_params (a\<lparr>origin_car := Some b\<rparr>)) ''originCar''
       = Some (PyBool b))
   \<and> (map_of (plan_trip_params (a\<lparr>destination_walk := Some b\<rparr>)) ''destinationWalk''
       = Some (PyBool b))
   \<and> (map_of (plan_trip_params (a\<lparr>destination_bike := Some b\<rparr>)) ''destinationBike''
       = Some (PyBool b))
   \<and> (map_of (plan_trip_params (a\<lparr>destination_car := Some b\<rparr>)) ''destinationCar''
       = Some (PyBool b))
   \<and> (map_of (plan_trip_params (a\<lparr>travel_assistance := Some b\<rparr>)) ''travelAssistance''
       = Some (PyBool b))
   \<and> (map_of (plan_trip_params (a\<lparr>search_for_accessible_trip := Some b\<rparr>)) ''searchForAccessibleTrip''
       = Some (PyBool b))
   \<and> (map_of (plan_trip_params (a\<lparr>departure := Some b\<rparr>)) ''departure''
       = Some (PyBool b))
   \<and> (map_of (plan_trip_params (a\<lparr>shorter_change := Some b\<rparr>)) ''shorterChange''
       = Some (PyBool b))
   \<and> (map_of (plan_trip_params (a\<lparr>minimal_change_time := Some i\<rparr>)) ''minimalChangeTime''
       = Some (PyInt i))
   \<and> (map_of (plan_trip_params (a\<lparr>origin_accessible := Some b\<rparr>)) ''originAccessible''
       = Some (PyBool b))
   \<and> (map_of (plan_trip_params (a\<lparr>travel_assistance_transfer_time := Some i\<rparr>)) ''travelAssistanceTransferTime''
       = Some (PyInt i))
   \<and> (map_of (plan_trip_params (a\<lparr>search_for_arrival := Some b\<rparr>)) ''searchForArrival''
       = (if b then Some (PyBool True) else None))
   \<and> (map_of (get_trip_params ctx dat trt prd disc (Some i) ns scr) ''travelClass''
       = Some (PyInt i))
   \<and> (map_of (get_trip_params ctx dat trt prd disc tc (Some i) scr) ''nsr'' = Some (PyInt i))
   \<and> (map_of (get_trip_params ctx dat trt prd disc tc ns (Some b)) ''sourceCtxRecon''
       = Some (PyBool b))
   \<and> (map_of (get_booked_trip_params ctx bn otr eqa eqb) ''bookingNumber'' = Some (PyInt bn))
   \<and> (map_of (get_booked_trip_params ctx bn otr eqa eqb) ''originalTripRequestId''
       = Some (PyInt otr))
   \<and> (map_of (get_price_params fs ts tcl tt (Some b) ad ch rid pdt pat) ''isJointJourney''
       = Some (PyBool b))
   \<and> (map_of (get_price_params fs ts tcl tt jj (Some i) ch rid pdt pat) ''adults''
       = Some (PyInt i))
   \<and> (map_of (get_price_params fs ts tcl tt jj ad (Some i) rid pdt pat) ''children''
       = Some (PyInt i))
   \<and> (map_of (get_price_v2_params fs ts tcs tt (Some b) ad ch rid pft pat) ''isJointJourney''
       = Some (PyBool b))
   \<and> (map_of (get_price_v2_params fs ts tcs tt jj (Some i) ch rid pft pat) ''adults''
       = Some (PyInt i))
   \<and> (map_of (get_price_v2_params fs ts tcs tt jj ad (Some i) rid pft pat) ''children''
       = Some (PyInt i))
   \<and> (map_of (get_stations_params q ccs (Some i)) ''limit'' = Some (PyInt i))
   \<and> (map_of (get_nearest_stations_params lat lng n) ''lat'' = Some (PyFloat lat))
   \<and> (map_of (get_nearest_stations_params lat lng n) ''lng'' = Some (PyFloat lng))
   \<and> (map_of (get_nearest_stations_params lat lng (Some i)) ''limit'' = Some (PyInt i))
   \<and> (map_of (list_disruptions_params dts (Some b)) ''isActive'' = Some (PyBool b))"
  by (intro conjI DisruptionsAPI_list_sent StationsAPI_list_v2_sent StationsAPI_list_v3_sent
        StationsAPI_list_nearest_v2_sent StationsAPI_list_nearest_v3_sent get_departures_sent
        get_arrivals_sent get_journey_sent get_trip_sent get_booked_trip_sent get_price_sent
        get_price_v2_sent get_stations_sent get_nearest_stations_sent list_disruptions_sent
        plan_trip_floats_sent plan_trip_ints_sent plan_trip_bools_sent
        plan_trip_deprecated_sent plan_trip_search_for_arrival)

text \<open>\<^verbatim>\<open>False\<close> and \<^verbatim>\<open>0\<close> at \<^verbatim>\<open>plan_trip\<close>, \<^verbatim>\<open>get_journey\<close> and
  \<^verbatim>\<open>list_v2\<close>, and both values of \<^verbatim>\<open>search_for_arrival\<close>.\<close>

theorem explicit_false_and_zero_are_sent_witness:
  "map_of (plan_trip_params (no_args\<lparr>passing := Some False\<rparr>)) ''passing''
     = Some (PyBool False)
   \<and> map_of (plan_trip_params (no_args\<lparr>via_wait_time := Some 0\<rparr>)) ''viaWaitTime''
     = Some (PyInt 0)
   \<and> map_of (plan_trip_params (no_args\<lparr>search_for_arrival := Some True\<rparr>))
       ''searchForArrival'' = Some (PyBool True)
   \<and> map_of (plan_trip_params (no_args\<lparr>search_for_arrival := Some False\<rparr>))
       ''searchForArrival'' = None
   \<and> map_of (get_journey_params (Some 0) None None None None None (Some False))
       ''omitCrowdForecast'' = Some (PyBool False)
   \<and> map_of (get_journey_params (Some 0) None None None None None (Some False))
       ''train'' = Some (PyInt 0)
   \<and> map_of (StationsAPI_list_v2_params None None (Some False) (Some 0))
       ''includeNonPlannableStations'' = Some (PyBool False)
   \<and> map_of (StationsAPI_list_v2_params None None (Some False) (Some 0)) ''limit''
     = Some (PyInt 0)"
  using explicit_false_and_zero_are_sent[where a = no_args and b = False and i = 0
      and x = 0 and dt = None and dty = None and tcl = None and tcs = None and q = None
      and cc = None and inp = "Some False" and n = "Some 0" and lat = 0 and lng = 0 and st = "[]" and uic = None
      and lg = None and tr = "Some 0" and jid = None and duc = None and tuc = None
      and auc = None and ocf = "Some False" and ctx = "[]" and dat = None and trt = None
      and prd = None and disc = None and tc = None and ns = None and scr = None and bn = 0
      and otr = 0 and eqa = None and eqb = None and fs = None and ts = None and tt = None
      and jj = None and ad = None and ch = None and rid = None and pdt = None and pat = None
      and pft = None and ccs = None and dts = None]
    explicit_false_and_zero_are_sent[where a = no_args and b = True and i = 0
      and x = 0 and dt = None and dty = None and tcl = None and tcs = None and q = None
      and cc = None and inp = "Some False" and n = "Some 0" and lat = 0 and lng = 0 and st = "[]" and uic = None
      and lg = None and tr = "Some 0" and jid = None and duc = None and tuc = None
      and auc = None and ocf = "Some False" and ctx = "[]" and dat = None and trt = None
      and prd = None and disc = None and tc = None and ns = None and scr = None and bn = 0
      and otr = 0 and eqa = None and eqb = None and fs = None and ts = None and tt = None
      and jj = None and ad = None and ch = None and rid = None and pdt = None and pat = None
      and pft = None and ccs = None and dts = None]
  by simp

section \<open>Unset arguments\<close>





section \<open>Headers\<close>

text \<open>
  C8, as the specification states it, fails for the language: \<^verbatim>\<open>DisruptionsAPI.list\<close>
  sends it under the header name \<^verbatim>\<open>Accept-Language\<close>, \<^verbatim>\<open>TravelAPI.get_trip\<close> under
  the header name \<^verbatim>\<open>lang\<close>.
\<close>

theorem language_header_name_differs:
  "req_headers (DisruptionsAPI_list_request None None (Some ''en''))
     = Some [(''Accept-Language'', ''en'')]
   \<and> req_headers (get_trip_request ''arnu|test|ctx'' None None None None None None
         (Some ''en'') None None)
     = Some [(''lang'', ''en'')]
   \<and> ''Accept-Language'' \<noteq> ''lang''"
  by (simp add: DisruptionsAPI_list_request_def accept_language_headers_def
        get_trip_request_def get_trip_headers_def or_empty_def setitem_def)

text \<open>
  C8, amended. The push id, the bearer authorization and the sync api key each have one
  header name in every method that takes them (\<^verbatim>\<open>x-ns-push-id\<close>, \<^verbatim>\<open>Authorization\<close>,
  \<^verbatim>\<open>x-api-key\<close>). The language has two: \<^verbatim>\<open>Accept-Language\<close> in the three methods of
  the disruptions namespace that take it and in \<^verbatim>\<open>TravelAPI.list_disruptions\<close>,
  \<^verbatim>\<open>lang\<close> in \<^verbatim>\<open>get_trip\<close> and \<^verbatim>\<open>get_booked_trip\<close>; \<^verbatim>\<open>get_departures\<close>,
  \<^verbatim>\<open>get_arrivals\<close>, \<^verbatim>\<open>plan_trip\<close> and \<^verbatim>\<open>get_calamities\<close> send it as the query
  parameter \<^verbatim>\<open>lang\<close> instead. Every method builds one request, in which each header
  name occurs at most once, and no other method sets a header.
\<close>

theorem header_names_by_method:
  "req_headers (DisruptionsAPI_list_request ia dty lg)
     = (case lg of None \<Rightarrow> None | Some l \<Rightarrow> Some [(''Accept-Language'', l)])
   \<and> req_headers (DisruptionsAPI_get_request dtype did lg)
     = (case lg of None \<Rightarrow> None | Some l \<Rightarrow> Some [(''Accept-Language'', l)])
   \<and> req_headers (DisruptionsAPI_list_for_station_request st lg)
     = (case lg of None \<Rightarrow> None | Some l \<Rightarrow> Some [(''Accept-Language'', l)])
   \<and> req_headers (list_disruptions_request dts ia lg)
     = (case lg of None \<Rightarrow> None | Some l \<Rightarrow> Some [(''Accept-Language'', l)])
   \<and> req_headers (DisruptionsAPI_list_personal_request pid) = Some [(''x-ns-push-id'', pid)]
   \<and> req_headers (DisruptionsAPI_sync_saved_trips_request akey dump)
     = Some [(''x-api-key'', akey)]
   \<and> req_headers (plan_trip_request a)
     = (case authorization a of None \<Rightarrow> None | Some t \<Rightarrow> Some [(''Authorization'', t)])
   \<and> req_headers (get_trip_request ctx dt trt prd disc tc auth lg ns scr)
     = (case auth of
          None \<Rightarrow> (case lg of None \<Rightarrow> None | Some l \<Rightarrow> Some [(''lang'', l)])
        | Some t \<Rightarrow>
            (case lg of None \<Rightarrow> Some [(''Authorization'', t)]
             | Some l \<Rightarrow> Some [(''Authorization'', t), (''lang'', l)]))
   \<and> req_headers (get_booked_trip_request ctx bn otr tok eqa eqb lg)
     = (case lg of None \<Rightarrow> Some [(''Authorization'', tok)]
        | Some l \<Rightarrow> Some [(''Authorization'', tok), (''lang'', l)])
   \<and> map_of (get_departures_params st uco dt mj (Some l)) ''lang'' = Some (PyStr l)
   \<and> map_of (get_arrivals_params st uco dt mj (Some l)) ''lang'' = Some (PyStr l)
   \<and> map_of (plan_trip_params (a\<lparr>language := Some l\<rparr>)) ''lang'' = Some (PyStr l)
   \<and> map_of (get_calamities_params (Some l)) ''lang'' = Some (PyStr l)
   \<and> req_headers (get_departures_request st uco dt mj lg) = None
   \<and> req_headers (get_arrivals_request st uco dt mj lg) = None
   \<and> req_headers (get_calamities_request lg) = None
   \<and> req_headers (get_journey_request tr jid dt duc tuc auc ocf) = None
   \<and> req_headers (get_price_request fs ts tcl tt jj ad ch rid pdt pat) = None
   \<and> req_headers (get_price_v2_request fs ts tcs tt jj ad ch rid pdt pat) = None
   \<and> req_headers (get_stations_request q ccs n) = None
   \<and> req_headers (get_nearest_stations_request lat lng n) = None
   \<and> req_headers (list_station_disruptions_request st) = None
   \<and> req_headers (get_disruption_request dstr did) = None
   \<and> req_headers (StationsAPI_list_v2_request q cc inp n) = None
   \<and> req_headers (StationsAPI_list_v3_request q cc inp n) = None
   \<and> req_headers (StationsAPI_list_nearest_v2_request lat lng n inp) = None
   \<and> req_headers (StationsAPI_list_nearest_v3_request lat lng n inp) = None
   \<and> req_headers (StationsAPI_get_request uic cd) = None"
proof -
  have disruptions:
    "req_headers (DisruptionsAPI_list_request ia dty lg)
       = (case lg of None \<Rightarrow> None | Some l \<Rightarrow> Some [(''Accept-Language'', l)])"
    "req_headers (DisruptionsAPI_get_request dtype did lg)
       = (case lg of None \<Rightarrow> None | Some l \<Rightarrow> Some [(''Accept-Language'', l)])"
    "req_headers (DisruptionsAPI_list_for_station_request st lg)
       = (case lg of None \<Rightarrow> None | Some l \<Rightarrow> Some [(''Accept-Language'', l)])"
    "req_headers (list_disruptions_request dts ia lg)
       = (case lg of None \<Rightarrow> None | Some l \<Rightarrow> Some [(''Accept-Language'', l)])"
    "req_headers (DisruptionsAPI_list_personal_request pid) = Some [(''x-ns-push-id'', pid)]"
    "req_headers (DisruptionsAPI_sync_saved_trips_request akey dump)
       = Some [(''x-api-key'', akey)]"
    by (simp_all add: DisruptionsAPI_list_request_def DisruptionsAPI_get_request_def
          DisruptionsAPI_list_for_station_request_def list_disruptions_request_def
          DisruptionsAPI_list_personal_request_def DisruptionsAPI_sync_saved_trips_request_def
          accept_language_headers_def)
  have trips:
    "req_headers (plan_trip_request a)
       = (case authorization a of None \<Rightarrow> None | Some t \<Rightarrow> Some [(''Authorization'', t)])"
    "req_headers (get_trip_request ctx dt trt prd disc tc auth lg ns scr)
       = (case auth of
            None \<Rightarrow> (case lg of None \<Rightarrow> None | Some l \<Rightarrow> Some [(''lang'', l)])
          | Some t \<Rightarrow>
              (case lg of None \<Rightarrow> Some [(''Authorization'', t)]
               | Some l \<Rightarrow> Some [(''Authorization'', t), (''lang'', l)]))"
    "req_headers (get_booked_trip_request ctx bn otr tok eqa eqb lg)
       = (case lg of None \<Rightarrow> Some [(''Authorization'', tok)]
          | Some l \<Rightarrow> Some [(''Authorization'', tok), (''lang'', l)])"
    by (simp_all add: plan_trip_request_def plan_trip_headers_def get_trip_request_def
          get_trip_headers_def get_booked_trip_request_def get_booked_trip_headers_def
          or_empty_def setitem_def split: option.splits)
  have query:
    "map_of (get_departures_params st uco dt mj (Some l)) ''lang'' = Some (PyStr l)"
    "map_of (get_arrivals_params st uco dt mj (Some l)) ''lang'' = Some (PyStr l)"
    "map_of (get_calamities_params (Some l)) ''lang'' = Some (PyStr l)"
    unfolding get_departures_supplied get_arrivals_supplied get_calamities_supplied
    by (rule supplied_sent; simp add: py_opt_def)+
  have planq: "map_of (plan_trip_params (a\<lparr>language := Some l\<rparr>)) ''lang'' = Some (PyStr l)"
    by (rule plan_trip_sent; simp add: plan_trip_set_calls_def py_opt_def)
  have none:
    "req_headers (get_departures_request st uco dt mj lg) = None"
    "req_headers (get_arrivals_request st uco dt mj lg) = None"
    "req_headers (get_calamities_request lg) = None"
    "req_headers (get_journey_request tr jid dt duc tuc auc ocf) = None"
    "req_headers (get_price_request fs ts tcl tt jj ad ch rid pdt pat) = None"
    "req_headers (get_price_v2_request fs ts tcs tt jj ad ch rid pdt pat) = None"
    "req_headers (get_stations_request q ccs n) = None"
    "req_headers (get_nearest_stations_request lat lng n) = None"
    "req_headers (list_station_disruptions_request st) = None"
    "req_headers (get_disruption_request dstr did) = None"
    "req_headers (StationsAPI_list_v2_request q cc inp n) = None"
    "req_headers (StationsAPI_list_v3_request q cc inp n) = None"
    "req_headers (StationsAPI_list_nearest_v2_request lat lng n inp) = None"
    "req_headers (StationsAPI_list_nearest_v3_request lat lng n inp) = None"
    "req_headers (StationsAPI_get_request uic cd) = None"
    by (simp_all add: get_departures_request_def get_arrivals_request_def
          get_calamities_request_def get_journey_request_def get_price_request_def
          get_price_v2_request_def get_stations_request_def get_nearest_stations_request_def
          list_station_disruptions_request_def get_disruption_request_def
          StationsAPI_list_v2_request_def StationsAPI_list_v3_request_def
          StationsAPI_list_nearest_v2_request_def StationsAPI_list_nearest_v3_request_def
          StationsAPI_get_request_def)
  show ?thesis
    by (intro conjI disruptions trips query planq none)
qed

text \<open>A trip reconstructed with a bearer token and a language, a personal disruption
  list and a disruption list in Dutch.\<close>

theorem header_names_by_method_witness:
  "req_headers (get_trip_request ''arnu|test|ctx'' None None None None None
       (Some ''Bearer token123'') (Some ''en'') None None)
     = Some [(''Authorization'', ''Bearer token123''), (''lang'', ''en'')]
   \<and> req_headers (DisruptionsAPI_list_personal_request ''push-id-xyz'')
     = Some [(''x-ns-push-id'', ''push-id-xyz'')]
   \<and> req_headers (DisruptionsAPI_list_request None None (Some ''nl''))
     = Some [(''Accept-Language'', ''nl'')]
   \<and> req_headers (plan_trip_request (no_args\<lparr>authorization := Some ''Bearer token123''\<rparr>))
     = Some [(''Authorization'', ''Bearer token123'')]"
  using header_names_by_method[where ctx = "''arnu|test|ctx''" and dt = None and trt = None
      and prd = None and disc = None and tc = None and auth = "Some ''Bearer token123''"
      and lg = "Some ''nl''" and ns = None and scr = None and pid = "''push-id-xyz''"
      and ia = None and dty = None
      and a = "no_args\<lparr>authorization := Some ''Bearer token123''\<rparr>"
      and dtype = "Member [] []" and did = "[]" and st = "[]" and dts = None and akey = "[]"
      and dump = PyNone and bn = 0 and otr = 0 and tok = "[]" and eqa = None and eqb = None
      and uco = None and mj = None and l = "[]" and tr = None and jid = None and duc = None
      and tuc = None and auc = None and ocf = None and fs = None and ts = None
      and tcl = None and tcs = None and tt = None and jj = None and ad = None and ch = None
      and rid = None and pdt = None and pat = None and q = None and ccs = None and n = None
      and lat = 0 and lng = 0 and dstr = "[]" and cc = None and inp = None and uic = "[]"
      and cd = None]
    header_names_by_method[where ctx = "''arnu|test|ctx''" and dt = None and trt = None
      and prd = None and disc = None and tc = None and auth = "Some ''Bearer token123''"
      and lg = "Some ''en''" and ns = None and scr = None and pid = "''push-id-xyz''"
      and ia = None and dty = None
      and a = "no_args\<lparr>authorization := Some ''Bearer token123''\<rparr>"
      and dtype = "Member [] []" and did = "[]" and st = "[]" and dts = None and akey = "[]"
      and dump = PyNone and bn = 0 and otr = 0 and tok = "[]" and eqa = None and eqb = None
      and uco = None and mj = None and l = "[]" and tr = None and jid = None and duc = None
      and tuc = None and auc = None and ocf = None and fs = None and ts = None
      and tcl = None and tcs = None and tt = None and jj = None and ad = None and ch = None
      and rid = None and pdt = None and pat = None and q = None and ccs = None and n = None
      and lat = 0 and lng = 0 and dstr = "[]" and cc = None and inp = None and uic = "[]"
      and cd = None]
  by (simp add: no_args_def)

section \<open>Deprecation notices\<close>






end
